theory Spec2Isabelle
  imports Main "HOL-Library.Sublist" "HOL-Library.AList"
begin

section \<open>Python strings\<close>

text \<open>
  Query text, parameter values and column names are Python \<open>str\<close> values. They are
  modelled as HOL strings whose characters are the code points U+0000 to U+00FF; the
  character classes below are the ones Python's \<open>str\<close> methods and the \<open>re\<close> module
  (Unicode mode, the default for \<open>str\<close> patterns) assign to those code points.
\<close>

definition ascii_upper :: string where
  "ascii_upper = ''ABCDEFGHIJKLMNOPQRSTUVWXYZ''"

definition ascii_lower :: string where
  "ascii_lower = ''abcdefghijklmnopqrstuvwxyz''"

definition digits :: string where
  "digits = ''0123456789''"

definition latin1_upper :: string where
  "latin1_upper =
     [CHR 0xC0, CHR 0xC1, CHR 0xC2, CHR 0xC3, CHR 0xC4, CHR 0xC5, CHR 0xC6, CHR 0xC7,
      CHR 0xC8, CHR 0xC9, CHR 0xCA, CHR 0xCB, CHR 0xCC, CHR 0xCD, CHR 0xCE, CHR 0xCF,
      CHR 0xD0, CHR 0xD1, CHR 0xD2, CHR 0xD3, CHR 0xD4, CHR 0xD5, CHR 0xD6, CHR 0xD8,
      CHR 0xD9, CHR 0xDA, CHR 0xDB, CHR 0xDC, CHR 0xDD, CHR 0xDE]"

definition latin1_lower :: string where
  "latin1_lower =
     [CHR 0xE0, CHR 0xE1, CHR 0xE2, CHR 0xE3, CHR 0xE4, CHR 0xE5, CHR 0xE6, CHR 0xE7,
      CHR 0xE8, CHR 0xE9, CHR 0xEA, CHR 0xEB, CHR 0xEC, CHR 0xED, CHR 0xEE, CHR 0xEF,
      CHR 0xF0, CHR 0xF1, CHR 0xF2, CHR 0xF3, CHR 0xF4, CHR 0xF5, CHR 0xF6, CHR 0xF8,
      CHR 0xF9, CHR 0xFA, CHR 0xFB, CHR 0xFC, CHR 0xFD, CHR 0xFE]"

definition latin1_other_word :: string where
  \<comment> \<open>the remaining alphanumeric code points from U+0080 to U+00FF\<close>
  "latin1_other_word =
     [CHR 0xAA, CHR 0xB2, CHR 0xB3, CHR 0xB5, CHR 0xB9, CHR 0xBA, CHR 0xBC, CHR 0xBD,
      CHR 0xBE, CHR 0xDF, CHR 0xFF]"

definition space_chars :: string where
  "space_chars =
     [CHR 0x09, CHR 0x0A, CHR 0x0B, CHR 0x0C, CHR 0x0D, CHR 0x1C, CHR 0x1D, CHR 0x1E,
      CHR 0x1F, CHR 0x20, CHR 0x85, CHR 0xA0]"

definition translate :: "string \<Rightarrow> string \<Rightarrow> char \<Rightarrow> char" where
  "translate src dst c = (case map_of (zip src dst) c of None \<Rightarrow> c | Some d \<Rightarrow> d)"

definition lower_char :: "char \<Rightarrow> char" where
  \<comment> \<open>\<open>str.lower\<close> on one character: A-Z and the Latin-1 capitals\<close>
  "lower_char = translate (ascii_upper @ latin1_upper) (ascii_lower @ latin1_lower)"

definition lower :: "string \<Rightarrow> string" where
  "lower s = map lower_char s"

definition upper_ident_char :: "char \<Rightarrow> char" where
  \<comment> \<open>\<open>str.upper\<close> on a character of an identifier \<open>[a-zA-Z0-9_]\<close>, the only
      characters it is applied to\<close>
  "upper_ident_char = translate ascii_lower ascii_upper"

definition upper_ident :: "string \<Rightarrow> string" where
  "upper_ident s = map upper_ident_char s"

definition is_space :: "char \<Rightarrow> bool" where
  \<comment> \<open>the class \<open>\<bsol>s\<close>\<close>
  "is_space c = (c \<in> set space_chars)"

definition is_ident_start :: "char \<Rightarrow> bool" where
  \<comment> \<open>the class \<open>[a-zA-Z_]\<close>\<close>
  "is_ident_start c = (c \<in> set (ascii_lower @ ascii_upper @ ''_''))"

definition is_ident_char :: "char \<Rightarrow> bool" where
  \<comment> \<open>the class \<open>[a-zA-Z0-9_]\<close>\<close>
  "is_ident_char c = (c \<in> set (ascii_lower @ ascii_upper @ digits @ ''_''))"

definition is_word :: "char \<Rightarrow> bool" where
  \<comment> \<open>the class \<open>\<bsol>w\<close>: alphanumeric code points and the underscore\<close>
  "is_word c =
     (is_ident_char c \<or> c \<in> set (latin1_upper @ latin1_lower @ latin1_other_word))"

fun starts_with :: "string \<Rightarrow> string \<Rightarrow> bool" where
  "starts_with [] s = True"
| "starts_with (p # ps) [] = False"
| "starts_with (p # ps) (c # cs) = (p = c \<and> starts_with ps cs)"

fun contains :: "string \<Rightarrow> string \<Rightarrow> bool" where
  \<comment> \<open>\<open>needle in s\<close>\<close>
  "contains needle [] = (needle = [])"
| "contains needle (c # cs) = (starts_with needle (c # cs) \<or> contains needle cs)"

fun str_split :: "char \<Rightarrow> string \<Rightarrow> string list" where
  \<comment> \<open>\<open>s.split(sep)\<close> for a one-character separator\<close>
  "str_split sep [] = [[]]"
| "str_split sep (c # cs) =
     (if c = sep then [] # str_split sep cs
      else (case str_split sep cs of
              [] \<Rightarrow> [[c]]
            | p # ps \<Rightarrow> (c # p) # ps))"

section \<open>Classification of a request\<close>

definition is_tap_schema_query :: "string \<Rightarrow> bool" where
  "is_tap_schema_query query_str =
     (if query_str = [] then False
      else contains ''tap_schema.'' (lower query_str))"


section \<open>Values, rows, exceptions and documents\<close>

text \<open>
  A cell of a result row is \<open>None\<close>, a \<open>str\<close>, or some other Python value (a number, in
  practice); the type \<open>'v\<close> stands for the latter, and the built-in operations on it that
  the server uses (\<open>str\<close> and multiplication by an \<open>int\<close>) are fields of the environment.
\<close>

datatype 'v pyval = PyNone | PyStr string | PyObj 'v

fun py_str :: "('v \<Rightarrow> string) \<Rightarrow> 'v pyval \<Rightarrow> string" where
  "py_str f PyNone = ''None''"
| "py_str f (PyStr s) = s"
| "py_str f (PyObj v) = f v"

type_synonym 'v row = "string \<rightharpoonup> 'v pyval"

text \<open>A row of the Metadata Store: every field is text or NULL.\<close>

type_synonym dbrow = "string \<rightharpoonup> string option"

datatype exn = AssertionError | IndexError | KeyError string | ExpatError string | Raised string

fun exn_str :: "exn \<Rightarrow> string" where
  \<comment> \<open>\<open>str(e)\<close>\<close>
  "exn_str AssertionError = []"
| "exn_str IndexError = ''list index out of range''"
| "exn_str (KeyError k) = [CHR 0x27] @ k @ [CHR 0x27]"
| "exn_str (ExpatError msg) = msg"
| "exn_str (Raised msg) = msg"

text \<open>
  An element tree as \<open>xml.etree.ElementTree\<close> builds it; the same type serves for the
  document that \<open>minidom\<close> parses back from its serialization. Element and attribute
  names are always constants of the server.
\<close>

datatype xml =
  Element (tag: string) (attrib: "(string \<times> string) list") (elem_text: "string option")
    (children: "xml list")

definition INFO :: "string \<Rightarrow> string \<Rightarrow> xml" where
  "INFO n v = Element ''INFO'' [(''name'', n), (''value'', v)] None []"

record response =
  body :: string
  mimetype :: string
  status :: nat

definition Response :: "string \<Rightarrow> nat \<Rightarrow> response" where
  "Response x st = \<lparr>body = x, mimetype = ''application/xml'', status = st\<rparr>"

section \<open>The query descriptor and the collaborators\<close>

text \<open>
  The value of the descriptor's \<open>spatial_search\<close> entry is a dict: its \<open>type\<close> entry is a
  string, the others are numbers or a list of coordinate pairs.
\<close>

datatype 'v sval = SStr string | SNum 'v | SCoords "('v \<times> 'v) list"

type_synonym 'v spatial = "(string \<times> 'v sval) list"

record 'v entities =
  tables :: "string list"
  columns :: "string list"
  conditions :: "(string \<times> string \<times> 'v pyval) list"
  spatial_search :: "'v spatial option"
  limits :: int
  order_by :: "(string \<times> bool) list"

text \<open>The arguments of \<open>lsdb.open_catalog\<close> and of \<open>head\<close> on its result.\<close>

record ('v, 'f) catalog_request =
  catalog_url :: string
  req_columns :: "string list"
  search_filter :: "'f option"
  filters :: "(string \<times> string \<times> 'v pyval) list"
  head_rows :: int

text \<open>
  What the server calls and does not define: the ADQL parser, the catalog-access library
  (the constructor of its cone predicate; opening a catalog, taking its head and
  converting the frame to rows and column names), the Metadata Store object
  (\<open>connect\<close>, \<open>query\<close>, \<open>query_with_columns\<close>), the clock, the built-ins on values,
  and of the XML libraries the writer of a parsed document (\<open>toprettyxml\<close> with an indent
  of two spaces) and the diagnostic of the parser for a serialization it rejects. Each
  call either returns or raises; the writer always returns.
\<close>

record ('v, 'f) env =
  parse_adql_entities :: "string \<Rightarrow> exn + 'v entities"
  ConeSearch :: "'v sval \<Rightarrow> 'v sval \<Rightarrow> 'v sval \<Rightarrow> exn + 'f"
  open_catalog_head :: "('v, 'f) catalog_request \<Rightarrow> exn + ('v row list \<times> string list)"
  db_connect :: "exn option"
  db_query :: "string \<Rightarrow> string option list \<Rightarrow> exn + dbrow list"
  db_query_with_columns :: "string \<Rightarrow> exn + ('v row list \<times> string list)"
  utc_now :: string
  str_of :: "'v \<Rightarrow> string"
  num_mul :: "'v \<Rightarrow> int \<Rightarrow> 'v"
  toprettyxml :: "xml \<Rightarrow> string"
  expat_message :: "xml \<Rightarrow> string"

section \<open>Metadata lookups\<close>

definition query_tap_schema :: "('v, 'f) env \<Rightarrow> string \<Rightarrow> 'v row list \<times> string list" where
  "query_tap_schema e query_str =
     (case db_query_with_columns e query_str of
        Inr (data, result_columns) \<Rightarrow> (data, result_columns)
      | Inl err \<Rightarrow> ([], []))"

record meta =
  m_datatype :: "string option"
  m_unit :: "string option"
  m_ucd :: "string option"
  m_description :: "string option"

text \<open>The metadata dict, in insertion order; its keys are the rows' \<open>column_name\<close> values.\<close>

type_synonym metadata = "(string option \<times> meta) list"

definition row_get :: "dbrow \<Rightarrow> string \<Rightarrow> string \<Rightarrow> string option" where
  \<comment> \<open>\<open>row.get(key, default)\<close>\<close>
  "row_get r key dflt = (case r key of None \<Rightarrow> Some dflt | Some v \<Rightarrow> v)"

definition row_meta :: "dbrow \<Rightarrow> meta" where
  "row_meta r =
     \<lparr>m_datatype = row_get r ''datatype'' ''char'',
      m_unit = row_get r ''unit'' [],
      m_ucd = row_get r ''ucd'' [],
      m_description = row_get r ''description'' []\<rparr>"

fun build_metadata :: "dbrow list \<Rightarrow> metadata \<Rightarrow> exn + metadata" where
  "build_metadata [] md = Inr md"
| "build_metadata (r # rs) md =
     (case r ''column_name'' of
        None \<Rightarrow> Inl (KeyError ''column_name'')
      | Some col_name \<Rightarrow> build_metadata rs (AList.update col_name (row_meta r) md))"

definition columns_sql :: string where
  "columns_sql =
     ''SELECT column_name, datatype, unit, ucd, description FROM columns WHERE table_name = ?''"

text \<open>
  The body of the \<open>try\<close> of \<open>get_column_metadata\<close>, together with the parameter tuples of
  the store queries it has issued, in order.
\<close>

definition get_column_metadata_try ::
  "('v, 'f) env \<Rightarrow> string \<Rightarrow> string option list list \<times> (exn + metadata)" where
  "get_column_metadata_try e table_name =
     (case db_connect e of
        Some err \<Rightarrow> ([], Inl err)
      | None \<Rightarrow>
          (case db_query e columns_sql [Some table_name] of
             Inl err \<Rightarrow> ([[Some table_name]], Inl err)
           | Inr results \<Rightarrow>
               if results = [] \<and> \<not> contains ''.'' table_name
               then (case db_query e columns_sql [Some (''public.'' @ table_name)] of
                       Inl err \<Rightarrow>
                         ([[Some table_name], [Some (''public.'' @ table_name)]], Inl err)
                     | Inr results2 \<Rightarrow>
                         ([[Some table_name], [Some (''public.'' @ table_name)]],
                          build_metadata results2 []))
               else ([[Some table_name]], build_metadata results [])))"

definition get_column_metadata_traced ::
  "('v, 'f) env \<Rightarrow> string \<Rightarrow> string option list list \<times> metadata" where
  "get_column_metadata_traced e table_name =
     (if table_name = [] then ([], [])
      else (case get_column_metadata_try e table_name of
              (calls, Inr md) \<Rightarrow> (calls, md)
            | (calls, Inl err) \<Rightarrow> (calls, [])))"

definition get_column_metadata :: "('v, 'f) env \<Rightarrow> string \<Rightarrow> metadata" where
  "get_column_metadata e table_name = snd (get_column_metadata_traced e table_name)"

section \<open>Formatting a document\<close>

text \<open>
  \<open>format_xml_with_indentation\<close> serializes the element tree, parses the text back with
  \<open>minidom\<close>, and writes the parsed document with indentation.

  The parser rejects the serialization when an attribute value or a text holds a
  character that XML 1.0 cannot carry: of the code points below U+0100 these are the
  control characters other than TAB, LF and CR. The serializer writes TAB, LF and CR of
  an attribute value as character references, so the parsed attribute values are the
  given ones; in a text the parser reads CR LF and a single CR as LF; and an empty text
  leaves no text in the document.
\<close>

definition LF :: char where
  "LF = CHR 0x0A"

definition CR :: char where
  "CR = CHR 0x0D"

definition xml_forbidden :: string where
  "xml_forbidden =
     [CHR 0x00, CHR 0x01, CHR 0x02, CHR 0x03, CHR 0x04, CHR 0x05, CHR 0x06, CHR 0x07,
      CHR 0x08, CHR 0x0B, CHR 0x0C, CHR 0x0E, CHR 0x0F, CHR 0x10, CHR 0x11, CHR 0x12,
      CHR 0x13, CHR 0x14, CHR 0x15, CHR 0x16, CHR 0x17, CHR 0x18, CHR 0x19, CHR 0x1A,
      CHR 0x1B, CHR 0x1C, CHR 0x1D, CHR 0x1E, CHR 0x1F]"

definition xml_safe :: "string \<Rightarrow> bool" where
  "xml_safe s = (set s \<inter> set xml_forbidden = {})"

fun normalize_newlines :: "string \<Rightarrow> string" where
  "normalize_newlines [] = []"
| "normalize_newlines [c] = (if c = CR then [LF] else [c])"
| "normalize_newlines (c # d # s) =
     (if c = CR
      then (if d = LF then LF # normalize_newlines s else LF # normalize_newlines (d # s))
      else c # normalize_newlines (d # s))"

fun serializable :: "xml \<Rightarrow> bool" where
  "serializable (Element t attrs txt cs) =
     ((\<forall>kv \<in> set attrs. xml_safe (snd kv)) \<and>
      (case txt of None \<Rightarrow> True | Some s \<Rightarrow> xml_safe s) \<and>
      (\<forall>c \<in> set cs. serializable c))"

fun parsed :: "xml \<Rightarrow> xml" where
  "parsed (Element t attrs txt cs) =
     Element t attrs
       (case txt of
          None \<Rightarrow> None
        | Some s \<Rightarrow> if s = [] then None else Some (normalize_newlines s))
       (map parsed cs)"

definition parse_document :: "('v, 'f) env \<Rightarrow> xml \<Rightarrow> exn + xml" where
  \<comment> \<open>\<open>minidom.parseString(ET.tostring(element, ...))\<close>\<close>
  "parse_document e element =
     (if serializable element then Inr (parsed element)
      else Inl (ExpatError (expat_message e element)))"

fun str_join :: "char \<Rightarrow> string list \<Rightarrow> string" where
  \<comment> \<open>\<open>sep.join(lines)\<close>\<close>
  "str_join sep [] = []"
| "str_join sep [l] = l"
| "str_join sep (l # m # ls) = l @ sep # str_join sep (m # ls)"

definition xml_declaration :: string where
  "xml_declaration =
     ''<?xml version='' @ [CHR 0x22] @ ''1.0'' @ [CHR 0x22] @ '' encoding='' @ [CHR 0x22]
     @ ''UTF-8'' @ [CHR 0x22] @ ''?>''"

definition write_document :: "('v, 'f) env \<Rightarrow> xml \<Rightarrow> string" where
  \<comment> \<open>the written document without the writer's own declaration line and without
      blank lines at the end, under the server's declaration\<close>
  "write_document e doc =
     (let pretty_xml = toprettyxml e doc;
          lines = str_split LF pretty_xml;
          lines = (case lines of
                     [] \<Rightarrow> lines
                   | l # ls \<Rightarrow> if starts_with ''<?xml'' l then ls else lines);
          lines = rev (dropWhile (list_all is_space) (rev lines))
      in xml_declaration @ [LF] @ str_join LF lines)"

definition format_xml_with_indentation :: "('v, 'f) env \<Rightarrow> xml \<Rightarrow> exn + string" where
  "format_xml_with_indentation e element =
     (case parse_document e element of
        Inl err \<Rightarrow> Inl err
      | Inr doc \<Rightarrow> Inr (write_document e doc))"

section \<open>Documents\<close>

record query_info =
  qi_query :: string
  qi_table :: string

definition set_if_known :: "string \<Rightarrow> string option \<Rightarrow> (string \<times> string) list \<Rightarrow> (string \<times> string) list" where
  \<comment> \<open>\<open>if meta.get(key): field_attrs[key] = meta[key]\<close>\<close>
  "set_if_known key v attrs =
     (case v of
        None \<Rightarrow> attrs
      | Some s \<Rightarrow> if s = [] then attrs else AList.update key s attrs)"

definition field_attrs :: "metadata \<Rightarrow> string \<Rightarrow> (string \<times> string) list" where
  "field_attrs column_metadata col =
     (let attrs = [(''name'', col), (''datatype'', ''double''), (''unit'', [])] in
      case (if column_metadata = [] then None else map_of column_metadata (Some col)) of
        Some m \<Rightarrow>
          set_if_known ''ucd'' (m_ucd m)
            (set_if_known ''unit'' (m_unit m)
               (set_if_known ''datatype'' (m_datatype m) attrs))
      | None \<Rightarrow>
          if lower col \<in> set [''ra'', ''ra_deg'']
          then AList.update ''ucd'' ''pos.eq.ra;meta.main'' (AList.update ''unit'' ''deg'' attrs)
          else if lower col \<in> set [''dec'', ''dec_deg'']
          then AList.update ''ucd'' ''pos.eq.dec;meta.main'' (AList.update ''unit'' ''deg'' attrs)
          else if lower col \<in> set [''mag'', ''magnitude'']
          then AList.update ''ucd'' ''phot.mag'' (AList.update ''unit'' ''mag'' attrs)
          else attrs)"

definition FIELD :: "metadata \<Rightarrow> string \<Rightarrow> xml" where
  "FIELD column_metadata col = Element ''FIELD'' (field_attrs column_metadata col) None []"

definition cell_text :: "('v \<Rightarrow> string) \<Rightarrow> 'v row \<Rightarrow> string \<Rightarrow> string" where
  \<comment> \<open>\<open>value = row_data.get(col, ""); str(value) if value is not None else ""\<close>\<close>
  "cell_text f row_data col =
     (let v = (case row_data col of None \<Rightarrow> PyStr [] | Some x \<Rightarrow> x) in
      case v of PyNone \<Rightarrow> [] | _ \<Rightarrow> py_str f v)"

definition TD :: "('v \<Rightarrow> string) \<Rightarrow> 'v row \<Rightarrow> string \<Rightarrow> xml" where
  "TD f row_data col = Element ''TD'' [] (Some (cell_text f row_data col)) []"

definition TR :: "('v \<Rightarrow> string) \<Rightarrow> string list \<Rightarrow> 'v row \<Rightarrow> xml" where
  "TR f cols row_data = Element ''TR'' [] None (map (TD f row_data) cols)"

text \<open>The element tree that \<open>create_votable_response\<close> builds, and the function.\<close>

definition votable_element ::
  "('v, 'f) env \<Rightarrow> 'v row list \<Rightarrow> string list \<Rightarrow> query_info \<Rightarrow> metadata \<Rightarrow> xml" where
  "votable_element e data cols qi column_metadata =
     Element ''VOTABLE''
       [(''version'', ''1.4''),
        (''xmlns'', ''http://www.ivoa.net/xml/VOTable/v1.4''),
        (''xmlns:xsi'', ''http://www.w3.org/2001/XMLSchema-instance'')] None
       [Element ''RESOURCE'' [(''type'', ''results'')] None
          [INFO ''QUERY_STATUS'' ''OK'',
           INFO ''QUERY'' (qi_query qi),
           INFO ''TIMESTAMP'' (utc_now e),
           Element ''TABLE'' [(''name'', qi_table qi)] None
             (map (FIELD column_metadata) cols @
              [Element ''DATA'' [] None
                 [Element ''TABLEDATA'' [] None (map (TR (str_of e) cols) data)]])]]"

definition create_votable_response ::
  "('v, 'f) env \<Rightarrow> 'v row list \<Rightarrow> string list \<Rightarrow> query_info \<Rightarrow> metadata \<Rightarrow> exn + string" where
  "create_votable_response e data cols qi column_metadata =
     format_xml_with_indentation e (votable_element e data cols qi column_metadata)"

text \<open>The element tree that \<open>create_error_votable\<close> builds, and the function.\<close>

definition error_element :: "string \<Rightarrow> string \<Rightarrow> xml" where
  "error_element error_message query =
     Element ''VOTABLE''
       [(''version'', ''1.4''), (''xmlns'', ''http://www.ivoa.net/xml/VOTable/v1.4'')] None
       [Element ''RESOURCE'' [(''type'', ''results'')] None
          ([INFO ''QUERY_STATUS'' ''ERROR'', INFO ''ERROR'' error_message] @
           (if query = [] then [] else [INFO ''QUERY'' query]))]"

definition create_error_votable :: "('v, 'f) env \<Rightarrow> string \<Rightarrow> string \<Rightarrow> exn + string" where
  "create_error_votable e error_message query =
     format_xml_with_indentation e (error_element error_message query)"

section \<open>Table name of the metadata lookup\<close>

definition sql_keywords :: "string list" where
  "sql_keywords =
     [''WHERE'', ''SELECT'', ''ORDER'', ''GROUP'', ''HAVING'', ''LIMIT'', ''OFFSET'',
      ''UNION'', ''INTERSECT'', ''EXCEPT'', ''JOIN'', ''INNER'', ''LEFT'', ''RIGHT'',
      ''OUTER'', ''CROSS'', ''ON'', ''AS'', ''AND'', ''OR'', ''NOT'', ''IN'', ''EXISTS'',
      ''BETWEEN'', ''LIKE'', ''IS'', ''NULL'', ''DISTINCT'', ''ALL'', ''ANY'', ''SOME'']"

text \<open>
  The search for the pattern
  \<^verbatim>\<open>\bFROM\s+([a-zA-Z_][a-zA-Z0-9_]*(?:\.[a-zA-Z_][a-zA-Z0-9_]*)?)\b\<close>, ignoring case.
  \<open>match_ident\<close> takes the longest identifier at the head of the text and returns it with
  the rest of the text.
\<close>

definition match_ident :: "string \<Rightarrow> (string \<times> string) option" where
  "match_ident s =
     (case s of
        [] \<Rightarrow> None
      | c # cs \<Rightarrow>
          if is_ident_start c
          then Some (c # takeWhile is_ident_char cs, dropWhile is_ident_char cs)
          else None)"

definition at_word_end :: "string \<Rightarrow> bool" where
  \<comment> \<open>the final \<open>\<bsol>b\<close>, after a word character: the rest is empty or starts with a
      non-word character\<close>
  "at_word_end s = (case s of [] \<Rightarrow> True | c # _ \<Rightarrow> \<not> is_word c)"

text \<open>
  The group and the final boundary. The identifier classes contain word characters only,
  so a boundary can only follow the longest identifier. When the qualified form is
  followed by a word character the matcher backtracks to the bare first identifier,
  which the dot bounds.
\<close>

definition match_table :: "string \<Rightarrow> string option" where
  "match_table s =
     (case match_ident s of
        None \<Rightarrow> None
      | Some (t1, r1) \<Rightarrow>
          (case r1 of
             [] \<Rightarrow> Some t1
           | c # r2 \<Rightarrow>
               if c = CHR ''.''
               then (case match_ident r2 of
                       None \<Rightarrow> Some t1
                     | Some (t2, r3) \<Rightarrow>
                         if at_word_end r3 then Some (t1 @ ''.'' @ t2) else Some t1)
               else if is_word c then None else Some t1))"

definition match_from :: "string \<Rightarrow> string option" where
  \<comment> \<open>the pattern after its leading boundary, at the head of the text\<close>
  "match_from s =
     (if lower (take 4 s) = ''from''
      then (case drop 4 s of
              [] \<Rightarrow> None
            | c # cs \<Rightarrow> if is_space c then match_table (dropWhile is_space cs) else None)
      else None)"

fun search_from :: "bool \<Rightarrow> string \<Rightarrow> string option" where
  \<comment> \<open>\<open>re.search\<close>: the match at the leftmost position. The flag says whether the
      character before the text is a word character.\<close>
  "search_from prev_word [] = None"
| "search_from prev_word (c # cs) =
     (case (if prev_word then None else match_from (c # cs)) of
        Some t \<Rightarrow> Some t
      | None \<Rightarrow> search_from (is_word c) cs)"

definition extract_table_name :: "string \<Rightarrow> string" where
  "extract_table_name query =
     (case search_from False query of
        None \<Rightarrow> ''results''
      | Some candidate \<Rightarrow>
          let table_part = last (str_split CHR ''.'' candidate) in
          if upper_ident table_part \<notin> set sql_keywords then candidate else ''results'')"

section \<open>The FROM pattern, read declaratively\<close>

text \<open>
  What the pattern of the table-name scan matches, for comparison with the search above:
  an identifier is a letter or underscore followed by letters, digits and underscores; a
  table reference is an identifier or two identifiers joined by a dot; and the pattern
  matches a text after the prefix \<open>pre\<close>, with the table reference \<open>cand\<close>, when the text
  continues after \<open>pre\<close> with the word \<open>FROM\<close> in any case at a word boundary, some
  whitespace, and \<open>cand\<close> ending at a word boundary.
\<close>

definition is_identifier :: "string \<Rightarrow> bool" where
  "is_identifier s = (case s of [] \<Rightarrow> False | c # cs \<Rightarrow> is_ident_start c \<and> list_all is_ident_char cs)"

definition table_ref :: "string \<Rightarrow> bool" where
  "table_ref s = (is_identifier s \<or> (\<exists>a b. s = a @ ''.'' @ b \<and> is_identifier a \<and> is_identifier b))"

definition from_pattern_match :: "string \<Rightarrow> string \<Rightarrow> string \<Rightarrow> bool" where
  "from_pattern_match q pre cand =
     (\<exists>kw ws rest.
        q = pre @ kw @ ws @ cand @ rest \<and>
        (pre = [] \<or> \<not> is_word (last pre)) \<and>
        lower kw = ''from'' \<and>
        ws \<noteq> [] \<and> list_all is_space ws \<and>
        table_ref cand \<and>
        at_word_end rest)"

text \<open>
  The match that \<open>re.search\<close> reports: at the leftmost position where the pattern matches
  and, there, with the longest table reference (the optional qualified part is greedy).
\<close>

definition leftmost_match :: "string \<Rightarrow> string \<Rightarrow> string \<Rightarrow> bool" where
  "leftmost_match q pre cand =
     (from_pattern_match q pre cand \<and>
      (\<forall>pre' cand'. from_pattern_match q pre' cand' \<longrightarrow>
         length pre \<le> length pre' \<and>
         (length pre' = length pre \<longrightarrow> length cand' \<le> length cand)))"

text \<open>The parts of a match: after the whitespace, after the boundary, and in a suffix
  of the text.\<close>

definition table_candidate :: "string \<Rightarrow> string \<Rightarrow> bool" where
  "table_candidate s cand = (\<exists>rest. s = cand @ rest \<and> table_ref cand \<and> at_word_end rest)"

definition from_candidate :: "string \<Rightarrow> string \<Rightarrow> bool" where
  "from_candidate s cand =
     (\<exists>kw ws rest.
        s = kw @ ws @ cand @ rest \<and> lower kw = ''from'' \<and> ws \<noteq> [] \<and> list_all is_space ws \<and>
        table_ref cand \<and> at_word_end rest)"

definition from_match_in :: "bool \<Rightarrow> string \<Rightarrow> string \<Rightarrow> string \<Rightarrow> bool" where
  "from_match_in prev_word s p cand =
     (\<exists>s'. s = p @ s' \<and> (if p = [] then \<not> prev_word else \<not> is_word (last p)) \<and>
           from_candidate s' cand)"

section \<open>The synchronous query endpoint\<close>

definition catalog_prefix :: string where
  "catalog_prefix = ''/var/www/data.lsdb.io/html/hats''"

definition make_catalog_url :: "string \<Rightarrow> exn + string" where
  "make_catalog_url table =
     (if contains ''.'' table
      then (case str_split CHR ''.'' table of
              p0 # p1 # _ \<Rightarrow> Inr (catalog_prefix @ ''/'' @ p0 @ ''/'' @ p1 @ ''/'')
            | _ \<Rightarrow> Inl IndexError)
      else Inr (catalog_prefix @ ''/'' @ table @ ''/''))"

definition spatial_get :: "'v spatial \<Rightarrow> string \<Rightarrow> exn + 'v sval" where
  \<comment> \<open>\<open>spatial[key]\<close>\<close>
  "spatial_get spatial key =
     (case map_of spatial key of None \<Rightarrow> Inl (KeyError key) | Some v \<Rightarrow> Inr v)"

fun times_int :: "('v \<Rightarrow> int \<Rightarrow> 'v) \<Rightarrow> 'v sval \<Rightarrow> nat \<Rightarrow> 'v sval" where
  \<comment> \<open>\<open>x * k\<close> for a non-negative \<open>int\<close> literal \<open>k\<close>: a number is multiplied, a
      sequence repeated\<close>
  "times_int mul (SNum x) k = SNum (mul x (int k))"
| "times_int mul (SStr s) k = SStr (concat (replicate k s))"
| "times_int mul (SCoords cs) k = SCoords (concat (replicate k cs))"

definition build_search_filter :: "('v, 'f) env \<Rightarrow> 'v entities \<Rightarrow> exn + 'f option" where
  "build_search_filter e ents =
     (case spatial_search ents of
        None \<Rightarrow> Inr None
      | Some spatial \<Rightarrow>
          if spatial = [] then Inr None
          else (case spatial_get spatial ''type'' of
                  Inl err \<Rightarrow> Inl err
                | Inr ty \<Rightarrow>
                    if ty = SStr ''ConeSearch''
                    then (case spatial_get spatial ''ra'' of
                            Inl err \<Rightarrow> Inl err
                          | Inr ra \<Rightarrow>
                              (case spatial_get spatial ''dec'' of
                                 Inl err \<Rightarrow> Inl err
                               | Inr dec \<Rightarrow>
                                   (case spatial_get spatial ''radius'' of
                                      Inl err \<Rightarrow> Inl err
                                    | Inr radius \<Rightarrow>
                                        (case ConeSearch e ra dec
                                                (times_int (num_mul e) radius 3600) of
                                           Inl err \<Rightarrow> Inl err
                                         | Inr f \<Rightarrow> Inr (Some f)))))
                    else Inr None))"

text \<open>
  The data-query branch of the \<open>try\<close> block: the rows, the column names and the table
  name of the metadata lookup, or the exception raised on the way.
\<close>

definition data_query ::
  "('v, 'f) env \<Rightarrow> string \<Rightarrow> exn + ('v row list \<times> string list \<times> string)" where
  "data_query e query =
     (case parse_adql_entities e query of
        Inl err \<Rightarrow> Inl err
      | Inr ents \<Rightarrow>
          (case tables ents of
             [] \<Rightarrow> Inl AssertionError
           | table # _ \<Rightarrow>
               (case make_catalog_url table of
                  Inl err \<Rightarrow> Inl err
                | Inr url \<Rightarrow>
                    (case build_search_filter e ents of
                       Inl err \<Rightarrow> Inl err
                     | Inr flt \<Rightarrow>
                         (case open_catalog_head e
                                 \<lparr>catalog_url = url, req_columns = columns ents,
                                  search_filter = flt, filters = conditions ents,
                                  head_rows = limits ents\<rparr> of
                            Inl err \<Rightarrow> Inl err
                          | Inr (data, result_columns) \<Rightarrow>
                              Inr (data, result_columns, extract_table_name query))))))"

definition run_query ::
  "('v, 'f) env \<Rightarrow> string \<Rightarrow> exn + ('v row list \<times> string list \<times> string)" where
  "run_query e query =
     (if is_tap_schema_query query
      then (case query_tap_schema e query of
              (data, result_columns) \<Rightarrow> Inr (data, result_columns, ''tap_schema''))
      else data_query e query)"

text \<open>
  A response made of a document and a status code; the exception is the formatter's
  when the document cannot be made.
\<close>

definition respond_with :: "exn + string \<Rightarrow> nat \<Rightarrow> exn + response" where
  \<comment> \<open>\<open>Response(document, mimetype="application/xml", status=code)\<close>\<close>
  "respond_with document code =
     (case document of Inl err \<Rightarrow> Inl err | Inr text \<Rightarrow> Inr (Response text code))"

definition respond ::
  "('v, 'f) env \<Rightarrow> string \<Rightarrow> string \<Rightarrow> 'v row list \<times> string list \<times> string \<Rightarrow> exn + response" where
  "respond e query output_format r =
     (case r of (data, result_columns, table_name) \<Rightarrow>
        let column_metadata = get_column_metadata e table_name;
            qi = \<lparr>qi_query = query, qi_table = table_name\<rparr>
        in if output_format \<in> set [''votable'', ''votable/td'']
           then respond_with
                  (create_votable_response e data result_columns qi column_metadata) 200
           else respond_with
                  (create_error_votable e (''Unsupported format: '' @ output_format) query)
                  400)"

definition params_get :: "(string \<rightharpoonup> string) \<Rightarrow> string \<Rightarrow> string \<Rightarrow> string" where
  \<comment> \<open>\<open>params.get(key, default)\<close>\<close>
  "params_get params key dflt = (case params key of None \<Rightarrow> dflt | Some v \<Rightarrow> v)"

definition lang_supported :: "string \<Rightarrow> bool" where
  \<comment> \<open>\<open>re.match\<close> of \<^verbatim>\<open>^adql(-\d+\(\.\d+\)?)?\<close>, ignoring case: the group is
      optional, so the match succeeds exactly when the text starts with the four letters\<close>
  "lang_supported lang = (lower (take 4 lang) = ''adql'')"

text \<open>
  The rest of the \<open>try\<close> block after the routing, and the \<open>except\<close> clause, which
  catches every exception of the block and is itself unguarded. The result \<open>Inl\<close> is an
  exception that leaves the view function.
\<close>

definition complete ::
  "('v, 'f) env \<Rightarrow> string \<Rightarrow> string \<Rightarrow> exn + ('v row list \<times> string list \<times> string) \<Rightarrow>
     exn + response" where
  "complete e query output_format res =
     (case (case res of Inl err \<Rightarrow> Inl err | Inr r \<Rightarrow> respond e query output_format r) of
        Inr resp \<Rightarrow> Inr resp
      | Inl err \<Rightarrow>
          respond_with
            (create_error_votable e (''Error processing query: '' @ exn_str err) query) 500)"

definition sync_query :: "('v, 'f) env \<Rightarrow> (string \<rightharpoonup> string) \<Rightarrow> exn + response" where
  "sync_query e params =
     (let request_type = params_get params ''REQUEST'' [] in
      if request_type \<noteq> ''doQuery''
      then respond_with
             (create_error_votable e
                (''Invalid REQUEST parameter: '' @ request_type @ ''. Must be ''
                 @ [CHR 0x27] @ ''doQuery'' @ [CHR 0x27] @ ''.'') []) 400
      else
        let lang = params_get params ''LANG'' ''ADQL'' in
        if \<not> lang_supported lang
        then respond_with
               (create_error_votable e
                  (''Unsupported query language: '' @ lang @ ''. Only ADQL is supported.'') [])
               400
        else
          let query = params_get params ''QUERY'' [] in
          if query = []
          then respond_with
                 (create_error_votable e ''Missing required parameter: QUERY'' []) 400
          else
            let output_format = lower (params_get params ''FORMAT'' ''votable'') in
            complete e query output_format (run_query e query))"

text \<open>The three parameter checks that precede the \<open>try\<close> block.\<close>

definition request_valid :: "(string \<rightharpoonup> string) \<Rightarrow> bool" where
  "request_valid params =
     (params_get params ''REQUEST'' [] = ''doQuery'' \<and>
      lang_supported (params_get params ''LANG'' ''ADQL'') \<and>
      params_get params ''QUERY'' [] \<noteq> [])"

section \<open>The tables discovery document\<close>

definition schemas_sql :: string where
  "schemas_sql = ''SELECT schema_name, description FROM schemas ORDER BY schema_name''"

definition tables_sql :: string where
  "tables_sql =
     ''SELECT table_name, description FROM tables WHERE schema_name = ? ORDER BY table_name''"

definition table_columns_sql :: string where
  "table_columns_sql =
     ''SELECT column_name, datatype, unit, ucd, description ''
     @ ''FROM columns WHERE table_name = ? ORDER BY column_name''"

definition row_item :: "dbrow \<Rightarrow> string \<Rightarrow> exn + string option" where
  \<comment> \<open>\<open>row[key]\<close>\<close>
  "row_item r key = (case r key of None \<Rightarrow> Inl (KeyError key) | Some v \<Rightarrow> Inr v)"

definition fmt :: "string option \<Rightarrow> string" where
  \<comment> \<open>a value inside an f-string\<close>
  "fmt v = (case v of None \<Rightarrow> ''None'' | Some s \<Rightarrow> s)"

definition text_elem :: "string \<Rightarrow> string option \<Rightarrow> xml" where
  "text_elem tg txt = Element tg [] txt []"

definition optional_elem :: "string \<Rightarrow> dbrow \<Rightarrow> string \<Rightarrow> xml list" where
  \<comment> \<open>\<open>if row.get(key): ET.SubElement(parent, tg).text = row[key]\<close>\<close>
  "optional_elem tg r key =
     (case r key of
        Some (Some s) \<Rightarrow> if s = [] then [] else [text_elem tg (Some s)]
      | _ \<Rightarrow> [])"

fun map_exn :: "('a \<Rightarrow> exn + 'b) \<Rightarrow> 'a list \<Rightarrow> exn + 'b list" where
  \<comment> \<open>a \<open>for\<close> loop whose body may raise\<close>
  "map_exn f [] = Inr []"
| "map_exn f (x # xs) =
     (case f x of
        Inl err \<Rightarrow> Inl err
      | Inr y \<Rightarrow> (case map_exn f xs of Inl err \<Rightarrow> Inl err | Inr ys \<Rightarrow> Inr (y # ys)))"

definition column_elem :: "dbrow \<Rightarrow> exn + xml" where
  "column_elem column_row =
     (case row_item column_row ''column_name'' of
        Inl err \<Rightarrow> Inl err
      | Inr column_name \<Rightarrow>
          Inr (Element ''column'' [] None
                 ([text_elem ''name'' column_name]
                  @ optional_elem ''dataType'' column_row ''datatype''
                  @ optional_elem ''unit'' column_row ''unit''
                  @ optional_elem ''ucd'' column_row ''ucd''
                  @ optional_elem ''description'' column_row ''description'')))"

definition table_elem :: "('v, 'f) env \<Rightarrow> string option \<Rightarrow> dbrow \<Rightarrow> exn + xml" where
  "table_elem e schema_name table_row =
     (case row_item table_row ''table_name'' of
        Inl err \<Rightarrow> Inl err
      | Inr table_name \<Rightarrow>
          (case db_query e table_columns_sql
                  [Some (fmt schema_name @ ''.'' @ fmt table_name)] of
             Inl err \<Rightarrow> Inl err
           | Inr cols \<Rightarrow>
               (case map_exn column_elem cols of
                  Inl err \<Rightarrow> Inl err
                | Inr column_elems \<Rightarrow>
                    Inr (Element ''table'' [] None
                           ([text_elem ''name'' table_name]
                            @ optional_elem ''description'' table_row ''description''
                            @ column_elems)))))"

definition schema_elem :: "('v, 'f) env \<Rightarrow> dbrow \<Rightarrow> exn + xml" where
  "schema_elem e schema_row =
     (case row_item schema_row ''schema_name'' of
        Inl err \<Rightarrow> Inl err
      | Inr schema_name \<Rightarrow>
          (case db_query e tables_sql [schema_name] of
             Inl err \<Rightarrow> Inl err
           | Inr tbls \<Rightarrow>
               (case map_exn (table_elem e schema_name) tbls of
                  Inl err \<Rightarrow> Inl err
                | Inr table_elems \<Rightarrow>
                    Inr (Element ''schema'' [] None
                           ([text_elem ''name'' schema_name]
                            @ optional_elem ''description'' schema_row ''description''
                            @ table_elems)))))"

definition tableset :: "xml list \<Rightarrow> xml" where
  "tableset elems =
     Element ''tableset'' [(''xmlns'', ''http://www.ivoa.net/xml/VODataService/v1.1'')] None
       elems"

definition tables_element :: "('v, 'f) env \<Rightarrow> exn + xml" where
  \<comment> \<open>the element tree built inside the \<open>try\<close> of \<open>generate_tables_xml\<close>\<close>
  "tables_element e =
     (case db_connect e of
        Some err \<Rightarrow> Inl err
      | None \<Rightarrow>
          (case db_query e schemas_sql [] of
             Inl err \<Rightarrow> Inl err
           | Inr schemas \<Rightarrow>
               (case map_exn (schema_elem e) schemas of
                  Inl err \<Rightarrow> Inl err
                | Inr schema_elems \<Rightarrow> Inr (tableset schema_elems))))"

definition empty_tableset_text :: string where
  "empty_tableset_text =
     xml_declaration @ [LF] @ ''<tableset xmlns='' @ [CHR 0x22]
     @ ''http://www.ivoa.net/xml/VODataService/v1.1'' @ [CHR 0x22] @ ''/>''"

definition generate_tables_xml :: "('v, 'f) env \<Rightarrow> string" where
  "generate_tables_xml e =
     (case (case tables_element e of
              Inl err \<Rightarrow> Inl err
            | Inr element \<Rightarrow> format_xml_with_indentation e element) of
        Inl err \<Rightarrow> empty_tableset_text
      | Inr text \<Rightarrow> text)"

text \<open>The \<open>/tables\<close> route, the only route to the tables document; it takes no argument.\<close>

definition tables_endpoint :: "('v, 'f) env \<Rightarrow> response" where
  "tables_endpoint e = Response (generate_tables_xml e) 200"

section \<open>Reading a document\<close>

fun findall :: "string list \<Rightarrow> xml \<Rightarrow> xml list" where
  \<comment> \<open>the elements at a path of tags below an element, in document order\<close>
  "findall [] x = [x]"
| "findall (t # ts) x = concat (map (findall ts) (filter (\<lambda>c. tag c = t) (children x)))"

definition status_of :: "exn + response \<Rightarrow> nat option" where
  \<comment> \<open>the status code of the response, when the view function returns one\<close>
  "status_of res = (case res of Inl err \<Rightarrow> None | Inr r \<Rightarrow> Some (status r))"

definition infos :: "xml \<Rightarrow> (string \<times> string) list" where
  \<comment> \<open>the informational entries of a document: name and value\<close>
  "infos doc =
     map (\<lambda>i. (case map_of (attrib i) ''name'' of None \<Rightarrow> [] | Some n \<Rightarrow> n,
               case map_of (attrib i) ''value'' of None \<Rightarrow> [] | Some v \<Rightarrow> v))
       (findall [''RESOURCE'', ''INFO''] doc)"

section \<open>A store, a parser and a catalog for the examples\<close>

fun show_nat :: "nat \<Rightarrow> string" where
  "show_nat n =
     (if n < 10 then [digits ! n] else show_nat (n div 10) @ [digits ! (n mod 10)])"

declare show_nat.simps [simp del]

definition show_int :: "int \<Rightarrow> string" where
  \<comment> \<open>\<open>str\<close> of an \<open>int\<close>\<close>
  "show_int i = (if i < 0 then ''-'' @ show_nat (nat (- i)) else show_nat (nat i))"

definition column_row ::
  "string \<Rightarrow> string option \<Rightarrow> string option \<Rightarrow> string option \<Rightarrow> string option \<Rightarrow> dbrow" where
  "column_row name dt un uc de =
     [''column_name'' \<mapsto> Some name, ''datatype'' \<mapsto> dt, ''unit'' \<mapsto> un, ''ucd'' \<mapsto> uc,
      ''description'' \<mapsto> de]"

definition gaia_columns :: "dbrow list" where
  \<comment> \<open>the columns of \<open>gaia_dr3.gaia\<close>, by column name\<close>
  "gaia_columns =
     [column_row ''dec'' (Some ''double'') (Some ''deg'') (Some ''pos.eq.dec'') None,
      column_row ''parent_id'' (Some ''long'') None None None,
      column_row ''ra'' (Some ''double'') (Some ''deg'') (Some ''pos.eq.ra'') None,
      column_row ''source_id'' (Some ''long'') None None (Some ''Source identifier'')]"

definition public_t_columns :: "dbrow list" where
  \<comment> \<open>the columns of \<open>public.t\<close>\<close>
  "public_t_columns =
     [column_row ''c'' (Some ''double'') (Some ''deg'') None None,
      column_row ''d'' (Some ''char'') None (Some ''meta.id'') (Some ''An identifier'')]"

text \<open>
  Modelled from the spec: the Metadata Store (\<open>TAPSchemaDatabase\<close>, whose module is not
  among the sources). These are the answers of its \<open>query\<close> to the statements the server
  issues when the store holds the records of the fixture of the tables tests (schema
  \<open>gaia_dr3\<close>, its tables \<open>gaia\<close> and \<open>parents\<close> with their columns, and the key
  \<open>fk_parent\<close> from \<open>gaia\<close> to \<open>parents\<close>) and the columns \<open>c\<close> and \<open>d\<close> of
  \<open>public.t\<close>. No rows match any other parameter.
\<close>

definition fixture_query :: "string \<Rightarrow> string option list \<Rightarrow> exn + dbrow list" where
  "fixture_query sql params =
     (if sql = schemas_sql \<and> params = []
      then Inr [[''schema_name'' \<mapsto> Some ''gaia_dr3'',
                 ''description'' \<mapsto> Some ''Gaia DR3 schema'']]
      else if sql = tables_sql \<and> params = [Some ''gaia_dr3'']
      then Inr [[''table_name'' \<mapsto> Some ''gaia'', ''description'' \<mapsto> Some ''Gaia sources''],
                [''table_name'' \<mapsto> Some ''parents'', ''description'' \<mapsto> Some ''Parent table'']]
      else if (sql = table_columns_sql \<or> sql = columns_sql) \<and> params = [Some ''gaia_dr3.gaia'']
      then Inr gaia_columns
      else if (sql = table_columns_sql \<or> sql = columns_sql)
              \<and> params = [Some ''gaia_dr3.parents'']
      then Inr [column_row ''id'' (Some ''long'') None None None]
      else if (sql = table_columns_sql \<or> sql = columns_sql) \<and> params = [Some ''public.t'']
      then Inr public_t_columns
      else Inr [])"

text \<open>
  Query texts: a data query, an introspection statement the store accepts, a malformed
  introspection statement, and a data query that names its table with delimited
  identifiers (between double quotes).
\<close>

definition q_gaia :: string where
  "q_gaia = ''SELECT ra, dec, flux FROM gaia_dr3.gaia''"

definition q_schemas :: string where
  "q_schemas = ''SELECT schema_name FROM tap_schema.schemas''"

definition q_malformed :: string where
  "q_malformed = ''SELECT * FORM tap_schema.tables''"

definition q_delimited :: string where
  "q_delimited =
     ''SELECT ra FROM '' @ [CHR 0x22] @ ''gaia_dr3'' @ [CHR 0x22] @ ''.''
     @ [CHR 0x22] @ ''gaia'' @ [CHR 0x22]"

definition cone_270_23 :: "int spatial" where
  "cone_270_23 =
     [(''type'', SStr ''ConeSearch''), (''ra'', SNum 270), (''dec'', SNum 23),
      (''radius'', SNum 2)]"

definition polygon_280 :: "int spatial" where
  "polygon_280 =
     [(''type'', SStr ''PolygonSearch''),
      (''coordinates'', SCoords [(280, 30), (281, 30), (281, 29), (279, 27)])]"

definition descriptor :: "string \<Rightarrow> int spatial option \<Rightarrow> int entities" where
  "descriptor table sp =
     \<lparr>tables = [table], columns = [''ra'', ''dec'', ''flux''], conditions = [],
      spatial_search = sp, limits = 15, order_by = []\<rparr>"

text \<open>
  A writer for the examples: the declaration line of \<open>toprettyxml\<close> and the document on
  one line, without escaping.
\<close>

fun write_element :: "xml \<Rightarrow> string" where
  "write_element (Element t attrs txt cs) =
     ''<'' @ t
     @ concat (map (\<lambda>kv. '' '' @ fst kv @ ''='' @ [CHR 0x22] @ snd kv @ [CHR 0x22]) attrs)
     @ ''>'' @ (case txt of None \<Rightarrow> [] | Some s \<Rightarrow> s) @ concat (map write_element cs)
     @ ''</'' @ t @ ''>''"

definition example_writer :: "xml \<Rightarrow> string" where
  "example_writer doc =
     ''<?xml version='' @ [CHR 0x22] @ ''1.0'' @ [CHR 0x22] @ '' ?>'' @ [LF]
     @ write_element doc @ [LF]"

text \<open>
  An environment for the examples: the parser returns the given descriptor for every
  text, the cone constructor returns its three arguments, the catalog returns one row in
  which \<open>dec\<close> is \<open>None\<close> and \<open>flux\<close> is missing, the store answers as above and
  rejects every introspection statement but one, and the parser's diagnostic omits the
  position.
\<close>

definition example_env ::
  "int entities \<Rightarrow> (int, int sval \<times> int sval \<times> int sval) env" where
  "example_env ents =
     \<lparr>parse_adql_entities = (\<lambda>q. Inr ents),
      ConeSearch = (\<lambda>ra dec radius_arcsec. Inr (ra, dec, radius_arcsec)),
      open_catalog_head =
        (\<lambda>req. Inr ([[''ra'' \<mapsto> PyObj 270, ''dec'' \<mapsto> PyNone]], [''ra'', ''dec'', ''flux''])),
      db_connect = None,
      db_query = fixture_query,
      db_query_with_columns =
        (\<lambda>q. if q = q_schemas
              then Inr ([[''schema_name'' \<mapsto> PyStr ''gaia_dr3'']], [''schema_name''])
              else Inl (Raised ''near FORM: syntax error'')),
      utc_now = ''2026-01-01T00:00:00+00:00'',
      str_of = show_int,
      num_mul = (\<lambda>x k. x * k),
      toprettyxml = example_writer,
      expat_message = (\<lambda>element. ''not well-formed (invalid token)'')\<rparr>"

text \<open>
  Two stores that fail: one whose every query raises, and one that answers the first
  lookup of the table \<open>ztf_dr22\<close> with no rows and raises on every other query.
\<close>

definition broken_store_env :: "(int, int sval \<times> int sval \<times> int sval) env" where
  "broken_store_env =
     (example_env (descriptor ''ztf_dr22'' None))
       \<lparr>db_query := \<lambda>sql params. Inl (Raised ''no such table: columns'')\<rparr>"

definition broken_retry_env :: "(int, int sval \<times> int sval \<times> int sval) env" where
  "broken_retry_env =
     (example_env (descriptor ''ztf_dr22'' None))
       \<lparr>db_query := \<lambda>sql params.
          if params = [Some ''ztf_dr22''] then Inr []
          else Inl (Raised ''no such table: columns'')\<rparr>"

definition example_metadata :: metadata where
  \<comment> \<open>stored metadata of two columns, \<open>ra\<close> and \<open>source_id\<close>\<close>
  "example_metadata =
     [(Some ''ra'',
       \<lparr>m_datatype = Some ''float'', m_unit = Some ''deg'', m_ucd = Some ''pos.eq.ra'',
        m_description = Some []\<rparr>),
      (Some ''source_id'',
       \<lparr>m_datatype = Some ''long'', m_unit = None, m_ucd = Some [],
        m_description = Some ''Source identifier''\<rparr>)]"

definition sync_params :: "string \<Rightarrow> string \<rightharpoonup> string" where
  \<comment> \<open>the parameters of a well-formed request for the given query text\<close>
  "sync_params q = [''REQUEST'' \<mapsto> ''doQuery'', ''LANG'' \<mapsto> ''ADQL'', ''QUERY'' \<mapsto> q]"

section \<open>Properties: reading a document\<close>

lemma filter_FIELD_other:
  "t \<noteq> ''FIELD'' \<Longrightarrow> filter (\<lambda>c. tag c = t) (map (FIELD md) cols) = []"
  by (induction cols) (auto simp: FIELD_def)

lemma filter_FIELD_same:
  "filter (\<lambda>c. tag c = ''FIELD'') (map (FIELD md) cols) = map (FIELD md) cols"
  by (induction cols) (auto simp: FIELD_def)

lemma filter_TR_same:
  "filter (\<lambda>c. tag c = ''TR'') (map (TR f cols) data) = map (TR f cols) data"
  by (induction data) (auto simp: TR_def)

lemma concat_findall_nil: "concat (map (findall [] \<circ> f) xs) = map f xs"
  by (induction xs) auto

lemma findall_rows:
  "findall [''RESOURCE'', ''TABLE'', ''DATA'', ''TABLEDATA'', ''TR'']
     (votable_element e data cols qi md) = map (TR (str_of e) cols) data"
  by (simp add: votable_element_def INFO_def filter_FIELD_other filter_TR_same
      concat_findall_nil)

lemma findall_fields:
  "findall [''RESOURCE'', ''TABLE'', ''FIELD'']
     (votable_element e data cols qi md) = map (FIELD md) cols"
  by (simp add: votable_element_def INFO_def filter_FIELD_same concat_findall_nil)

lemma cell_text_cases:
  "cell_text f row_data col =
     (case row_data col of
        None \<Rightarrow> []
      | Some PyNone \<Rightarrow> []
      | Some (PyStr s) \<Rightarrow> s
      | Some (PyObj v) \<Rightarrow> f v)"
  by (simp add: cell_text_def split: option.splits pyval.splits)


lemma infos_ok:
  "infos (votable_element e data cols qi md) =
     [(''QUERY_STATUS'', ''OK''), (''QUERY'', qi_query qi), (''TIMESTAMP'', utc_now e)]"
  by (simp add: infos_def votable_element_def INFO_def)



subsection \<open>The parsed document\<close>

lemma tag_parsed: "tag (parsed x) = tag x"
  by (cases x) simp

lemma attrib_parsed: "attrib (parsed x) = attrib x"
  by (cases x) simp

lemma children_parsed: "children (parsed x) = map parsed (children x)"
  by (cases x) simp

lemma filter_tag_parsed:
  "filter (\<lambda>c. tag c = t) (map parsed xs) = map parsed (filter (\<lambda>c. tag c = t) xs)"
  by (induction xs) (auto simp: tag_parsed)

lemma findall_parsed: "findall p (parsed x) = map parsed (findall p x)"
proof (induction p arbitrary: x)
  case Nil
  then show ?case by simp
next
  case (Cons t ts)
  have "concat (map (findall ts) (map parsed ys)) = map parsed (concat (map (findall ts) ys))"
    for ys
    by (induction ys) (simp_all add: Cons.IH)
  then show ?case
    by (simp add: children_parsed filter_tag_parsed)
qed

lemma infos_parsed: "infos (parsed x) = infos x"
  by (simp add: infos_def findall_parsed attrib_parsed comp_def)


subsection \<open>What can be serialized\<close>

lemma constants_safe:
  "xml_safe ''1.4''" "xml_safe ''results''" "xml_safe ''QUERY_STATUS''" "xml_safe ''OK''"
  "xml_safe ''QUERY''" "xml_safe ''TIMESTAMP''" "xml_safe ''ERROR''"
  "xml_safe ''http://www.ivoa.net/xml/VOTable/v1.4''"
  "xml_safe ''http://www.w3.org/2001/XMLSchema-instance''"
  "xml_safe ''http://www.ivoa.net/xml/VODataService/v1.1''"
  by code_simp+

lemma xml_safe_Nil: "xml_safe []"
  by (simp add: xml_safe_def)

lemma xml_safe_append: "xml_safe (a @ b) \<longleftrightarrow> xml_safe a \<and> xml_safe b"
  by (auto simp: xml_safe_def)

lemma serializable_error:
  "serializable (error_element msg q) \<longleftrightarrow> xml_safe msg \<and> xml_safe q"
  by (auto simp: error_element_def INFO_def constants_safe xml_safe_Nil)

lemma serializable_TR:
  "serializable (TR f cols row_data) \<longleftrightarrow> (\<forall>col \<in> set cols. xml_safe (cell_text f row_data col))"
  by (auto simp: TR_def TD_def)

lemma serializable_FIELD:
  "serializable (FIELD md col) \<longleftrightarrow> (\<forall>kv \<in> set (field_attrs md col). xml_safe (snd kv))"
  by (auto simp: FIELD_def)

lemma serializable_votable:
  "serializable (votable_element e data cols qi md) \<longleftrightarrow>
     xml_safe (qi_query qi) \<and> xml_safe (utc_now e) \<and> xml_safe (qi_table qi) \<and>
     (\<forall>col \<in> set cols. \<forall>kv \<in> set (field_attrs md col). xml_safe (snd kv)) \<and>
     (\<forall>row_data \<in> set data. \<forall>col \<in> set cols. xml_safe (cell_text (str_of e) row_data col))"
  by (auto simp: votable_element_def INFO_def constants_safe serializable_TR
      serializable_FIELD)

lemma format_Inr:
  "format_xml_with_indentation e x = Inr text \<longleftrightarrow>
     serializable x \<and> text = write_document e (parsed x)"
  by (auto simp: format_xml_with_indentation_def parse_document_def)

lemma format_Inl:
  "format_xml_with_indentation e x = Inl err \<longleftrightarrow>
     \<not> serializable x \<and> err = ExpatError (expat_message e x)"
  by (auto simp: format_xml_with_indentation_def parse_document_def)

declare findall.simps [simp del]

section \<open>Properties: row serialization\<close>

lemma normalize_newlines_Nil: "normalize_newlines s = [] \<longleftrightarrow> s = []"
  by (induction s rule: normalize_newlines.induct) auto

lemma parsed_TR:
  "parsed (TR f cols row_data) =
     Element ''TR'' [] None
       (map (\<lambda>col. Element ''TD'' []
               (let s = normalize_newlines (cell_text f row_data col)
                in if s = [] then None else Some s) []) cols)"
  by (simp add: TR_def TD_def Let_def normalize_newlines_Nil)

lemma parse_document_Inr:
  "parse_document e x = Inr doc \<longleftrightarrow> serializable x \<and> doc = parsed x"
  by (auto simp: parse_document_def)

lemma create_votable_response_parsed:
  "parse_document e (votable_element e data cols qi md) = Inr doc \<Longrightarrow>
   create_votable_response e data cols qi md = Inr (write_document e doc)"
  by (simp add: create_votable_response_def format_xml_with_indentation_def)

lemma unsafe_cell_raises:
  "row_data \<in> set data \<Longrightarrow> col \<in> set cols \<Longrightarrow>
   \<not> xml_safe (cell_text (str_of e) row_data col) \<Longrightarrow>
   create_votable_response e data cols qi md =
     Inl (ExpatError (expat_message e (votable_element e data cols qi md)))"
  by (auto simp: create_votable_response_def format_Inl serializable_votable)

lemma cr_cell_serializable:
  "serializable (votable_element (example_env (descriptor ''t'' None))
     [[''ra'' \<mapsto> PyStr [CHR ''a'', CR, CHR ''b'']]] [''ra'']
     \<lparr>qi_query = q_gaia, qi_table = ''results''\<rparr> [])"
  by code_simp

lemma vt_cell_not_serializable:
  "\<not> serializable (votable_element (example_env (descriptor ''t'' None))
     [[''ra'' \<mapsto> PyStr [CHR ''a'', CHR 0x0B, CHR ''b'']]] [''ra'']
     \<lparr>qi_query = q_gaia, qi_table = ''results''\<rparr> [])"
  by code_simp

lemma cr_cell_text:
  "normalize_newlines [CHR ''a'', CR, CHR ''b''] = [CHR ''a'', LF, CHR ''b'']"
  by code_simp

text \<open>
  C9, as stated, fails where the text of a value holds a carriage return or a control
  character that XML 1.0 cannot carry. The value \<open>a\rb\<close> is rendered as \<open>a\nb\<close> in
  the document, which is not its string conversion; and for the value \<open>a\x0bb\<close> no
  document is made at all: the formatter raises.
\<close>

theorem cell_text_is_not_always_the_string_conversion:
  "create_votable_response (example_env (descriptor ''t'' None))
     [[''ra'' \<mapsto> PyStr [CHR ''a'', CR, CHR ''b'']]] [''ra'']
     \<lparr>qi_query = q_gaia, qi_table = ''results''\<rparr> [] =
     Inr (write_document (example_env (descriptor ''t'' None))
            (parsed (votable_element (example_env (descriptor ''t'' None))
               [[''ra'' \<mapsto> PyStr [CHR ''a'', CR, CHR ''b'']]] [''ra'']
               \<lparr>qi_query = q_gaia, qi_table = ''results''\<rparr> []))) \<and>
   map (map elem_text \<circ> children)
     (findall [''RESOURCE'', ''TABLE'', ''DATA'', ''TABLEDATA'', ''TR'']
        (parsed (votable_element (example_env (descriptor ''t'' None))
           [[''ra'' \<mapsto> PyStr [CHR ''a'', CR, CHR ''b'']]] [''ra'']
           \<lparr>qi_query = q_gaia, qi_table = ''results''\<rparr> []))) =
     [[Some [CHR ''a'', LF, CHR ''b'']]] \<and>
   create_votable_response (example_env (descriptor ''t'' None))
     [[''ra'' \<mapsto> PyStr [CHR ''a'', CHR 0x0B, CHR ''b'']]] [''ra'']
     \<lparr>qi_query = q_gaia, qi_table = ''results''\<rparr> [] =
     Inl (ExpatError ''not well-formed (invalid token)'')"
  unfolding findall_parsed findall_rows
  using cr_cell_serializable vt_cell_not_serializable cr_cell_text
  by (simp add: create_votable_response_def format_Inr format_Inl parsed_TR cell_text_def
      example_env_def)


lemma m31_serializable:
  "serializable (votable_element (example_env (descriptor ''t'' None))
     [[''ra'' \<mapsto> PyObj 270, ''dec'' \<mapsto> PyNone, ''name'' \<mapsto> PyStr ''M 31'']]
     [''ra'', ''dec'', ''flux'', ''name''] \<lparr>qi_query = q_gaia, qi_table = ''results''\<rparr> [])"
  by code_simp

lemma m31_cells:
  "normalize_newlines (show_int 270) = ''270''" "normalize_newlines ''M 31'' = ''M 31''"
  "\<not> xml_safe [CHR ''a'', CHR 0x0B, CHR ''b'']"
  by code_simp+

text \<open>
  C9, amended. When the parser accepts the serialization of the element tree, the
  function returns the writing of the parsed document, and that document holds one row
  element per row, in order, each with one cell element per output column, in order. The
  text of a cell is the string conversion of the value in which every CR LF and every
  other CR is replaced by LF; the cell has no text when the value is absent from the row
  mapping, is \<open>None\<close>, or converts to the empty string. When the text of some cell holds
  a character that XML 1.0 cannot carry, the function raises the parser's error and
  there is no document.
\<close>

theorem row_serialization:
  "(parse_document e (votable_element e data cols qi md) = Inr doc \<longrightarrow>
      create_votable_response e data cols qi md = Inr (write_document e doc) \<and>
      findall [''RESOURCE'', ''TABLE'', ''DATA'', ''TABLEDATA'', ''TR''] doc =
        map (\<lambda>row_data. Element ''TR'' [] None
               (map (\<lambda>col. Element ''TD'' []
                       (let s = normalize_newlines
                                  (case row_data col of
                                     None \<Rightarrow> []
                                   | Some PyNone \<Rightarrow> []
                                   | Some (PyStr s) \<Rightarrow> s
                                   | Some (PyObj v) \<Rightarrow> str_of e v)
                        in if s = [] then None else Some s) [])
                  cols))
          data) \<and>
   (bad_row \<in> set data \<and> bad_col \<in> set cols \<and>
    \<not> xml_safe (case bad_row bad_col of
                   None \<Rightarrow> []
                 | Some PyNone \<Rightarrow> []
                 | Some (PyStr s) \<Rightarrow> s
                 | Some (PyObj v) \<Rightarrow> str_of e v) \<longrightarrow>
      create_votable_response e data cols qi md =
        Inl (ExpatError (expat_message e (votable_element e data cols qi md))))"
proof (intro conjI impI)
  assume p: "parse_document e (votable_element e data cols qi md) = Inr doc"
  then show "create_votable_response e data cols qi md = Inr (write_document e doc)"
    by (rule create_votable_response_parsed)
  from p have doc: "doc = parsed (votable_element e data cols qi md)"
    by (simp add: parse_document_Inr)
  show "findall [''RESOURCE'', ''TABLE'', ''DATA'', ''TABLEDATA'', ''TR''] doc =
        map (\<lambda>row_data. Element ''TR'' [] None
               (map (\<lambda>col. Element ''TD'' []
                       (let s = normalize_newlines
                                  (case row_data col of
                                     None \<Rightarrow> []
                                   | Some PyNone \<Rightarrow> []
                                   | Some (PyStr s) \<Rightarrow> s
                                   | Some (PyObj v) \<Rightarrow> str_of e v)
                        in if s = [] then None else Some s) [])
                  cols))
          data"
    unfolding doc findall_parsed findall_rows
    by (simp add: parsed_TR cell_text_cases)
next
  assume "bad_row \<in> set data \<and> bad_col \<in> set cols \<and>
    \<not> xml_safe (case bad_row bad_col of
                   None \<Rightarrow> []
                 | Some PyNone \<Rightarrow> []
                 | Some (PyStr s) \<Rightarrow> s
                 | Some (PyObj v) \<Rightarrow> str_of e v)"
  then show "create_votable_response e data cols qi md =
        Inl (ExpatError (expat_message e (votable_element e data cols qi md)))"
    using unsafe_cell_raises [of bad_row data bad_col cols e qi md]
    by (simp add: cell_text_cases)
qed

theorem row_serialization_witness:
  "parse_document (example_env (descriptor ''t'' None))
     (votable_element (example_env (descriptor ''t'' None))
        [[''ra'' \<mapsto> PyObj 270, ''dec'' \<mapsto> PyNone, ''name'' \<mapsto> PyStr ''M 31'']]
        [''ra'', ''dec'', ''flux'', ''name''] \<lparr>qi_query = q_gaia, qi_table = ''results''\<rparr> []) =
     Inr (parsed
            (votable_element (example_env (descriptor ''t'' None))
               [[''ra'' \<mapsto> PyObj 270, ''dec'' \<mapsto> PyNone, ''name'' \<mapsto> PyStr ''M 31'']]
               [''ra'', ''dec'', ''flux'', ''name'']
               \<lparr>qi_query = q_gaia, qi_table = ''results''\<rparr> [])) \<and>
   create_votable_response (example_env (descriptor ''t'' None))
     [[''ra'' \<mapsto> PyObj 270, ''dec'' \<mapsto> PyNone, ''name'' \<mapsto> PyStr ''M 31'']]
     [''ra'', ''dec'', ''flux'', ''name''] \<lparr>qi_query = q_gaia, qi_table = ''results''\<rparr> [] =
     Inr (write_document (example_env (descriptor ''t'' None))
            (parsed
               (votable_element (example_env (descriptor ''t'' None))
                  [[''ra'' \<mapsto> PyObj 270, ''dec'' \<mapsto> PyNone, ''name'' \<mapsto> PyStr ''M 31'']]
                  [''ra'', ''dec'', ''flux'', ''name'']
                  \<lparr>qi_query = q_gaia, qi_table = ''results''\<rparr> []))) \<and>
   findall [''RESOURCE'', ''TABLE'', ''DATA'', ''TABLEDATA'', ''TR'']
     (parsed
        (votable_element (example_env (descriptor ''t'' None))
           [[''ra'' \<mapsto> PyObj 270, ''dec'' \<mapsto> PyNone, ''name'' \<mapsto> PyStr ''M 31'']]
           [''ra'', ''dec'', ''flux'', ''name'']
           \<lparr>qi_query = q_gaia, qi_table = ''results''\<rparr> [])) =
     [Element ''TR'' [] None
        [Element ''TD'' [] (Some ''270'') [], Element ''TD'' [] None [],
         Element ''TD'' [] None [], Element ''TD'' [] (Some ''M 31'') []]] \<and>
   \<not> xml_safe [CHR ''a'', CHR 0x0B, CHR ''b''] \<and>
   create_votable_response (example_env (descriptor ''t'' None))
     [[''ra'' \<mapsto> PyStr [CHR ''a'', CHR 0x0B, CHR ''b'']]] [''ra'']
     \<lparr>qi_query = q_gaia, qi_table = ''results''\<rparr> [] =
     Inl (ExpatError ''not well-formed (invalid token)'')"
  using m31_serializable m31_cells
    row_serialization
      [where e = "example_env (descriptor ''t'' None)"
         and data = "[[''ra'' \<mapsto> PyObj 270, ''dec'' \<mapsto> PyNone, ''name'' \<mapsto> PyStr ''M 31'']]"
         and cols = "[''ra'', ''dec'', ''flux'', ''name'']"
         and qi = "\<lparr>qi_query = q_gaia, qi_table = ''results''\<rparr>" and md = "[]"
         and doc = "parsed
            (votable_element (example_env (descriptor ''t'' None))
               [[''ra'' \<mapsto> PyObj 270, ''dec'' \<mapsto> PyNone, ''name'' \<mapsto> PyStr ''M 31'']]
               [''ra'', ''dec'', ''flux'', ''name'']
               \<lparr>qi_query = q_gaia, qi_table = ''results''\<rparr> [])"
         and bad_row = "[''ra'' \<mapsto> PyObj 270, ''dec'' \<mapsto> PyNone, ''name'' \<mapsto> PyStr ''M 31'']"
         and bad_col = "''ra''"]
    row_serialization
      [where e = "example_env (descriptor ''t'' None)"
         and data = "[[''ra'' \<mapsto> PyStr [CHR ''a'', CHR 0x0B, CHR ''b'']]]"
         and cols = "[''ra'']"
         and qi = "\<lparr>qi_query = q_gaia, qi_table = ''results''\<rparr>" and md = "[]"
         and bad_row = "[''ra'' \<mapsto> PyStr [CHR ''a'', CHR 0x0B, CHR ''b'']]"
         and bad_col = "''ra''"]
  by (simp add: parse_document_Inr example_env_def)

section \<open>Properties: the examples evaluated\<close>

lemma lang_supported_ADQL: "lang_supported ''ADQL''"
  by code_simp

lemma lower_votable: "lower ''votable'' = ''votable''"
  by code_simp

lemma q_schemas_tap: "is_tap_schema_query q_schemas"
  by code_simp

lemma q_malformed_tap: "is_tap_schema_query q_malformed"
  by code_simp

lemma q_gaia_not_tap: "\<not> is_tap_schema_query q_gaia"
  by code_simp

lemma q_delimited_not_tap: "\<not> is_tap_schema_query q_delimited"
  by code_simp

lemma q_nonempty:
  "q_gaia \<noteq> []" "q_schemas \<noteq> []" "q_malformed \<noteq> []" "q_delimited \<noteq> []"
  by (simp_all add: q_gaia_def q_schemas_def q_malformed_def q_delimited_def)

lemma q_distinct: "q_malformed \<noteq> q_schemas" "q_gaia \<noteq> q_schemas"
  by (simp_all add: q_gaia_def q_schemas_def q_malformed_def)

lemma extract_q_gaia: "extract_table_name q_gaia = ''gaia_dr3.gaia''"
  by code_simp

lemma extract_q_delimited: "extract_table_name q_delimited = ''results''"
  by code_simp

lemmas example_facts = lang_supported_ADQL lower_votable q_schemas_tap q_malformed_tap
  q_gaia_not_tap q_delimited_not_tap q_nonempty q_distinct extract_q_gaia
  extract_q_delimited

lemma sync_params_get:
  "params_get (sync_params q) ''REQUEST'' [] = ''doQuery''"
  "params_get (sync_params q) ''LANG'' ''ADQL'' = ''ADQL''"
  "params_get (sync_params q) ''QUERY'' [] = q"
  "params_get (sync_params q) ''FORMAT'' ''votable'' = ''votable''"
  by (simp_all add: sync_params_def params_get_def)

lemma sync_query_example:
  "q \<noteq> [] \<Longrightarrow> sync_query e (sync_params q) = complete e q ''votable'' (run_query e q)"
  by (simp add: sync_query_def sync_params_get lang_supported_ADQL lower_votable)

lemmas chr_defs = lower_def lower_char_def translate_def ascii_upper_def ascii_lower_def
  latin1_upper_def latin1_lower_def is_space_def space_chars_def is_word_def
  is_ident_char_def is_ident_start_def digits_def latin1_other_word_def upper_ident_def
  upper_ident_char_def

section \<open>Properties: classification and routing\<close>

lemma starts_with_prefix: "starts_with p s \<longleftrightarrow> prefix p s"
  by (induction p s rule: starts_with.induct) auto

lemma contains_sublist: "contains needle s \<longleftrightarrow> sublist needle s"
  by (induction s) (auto simp: starts_with_prefix sublist_Cons_right)

lemma contains_char: "contains [c] s \<longleftrightarrow> c \<in> set s"
  by (induction s) auto

lemma is_tap_schema_query_iff: "is_tap_schema_query q \<longleftrightarrow> sublist ''tap_schema.'' (lower q)"
  by (cases q) (auto simp: is_tap_schema_query_def contains_sublist lower_def)

lemma sync_query_valid:
  assumes "params_get params ''REQUEST'' [] = ''doQuery''"
    and "lang_supported (params_get params ''LANG'' ''ADQL'')"
    and "params_get params ''QUERY'' [] \<noteq> []"
  shows "sync_query e params =
     complete e (params_get params ''QUERY'' [])
       (lower (params_get params ''FORMAT'' ''votable''))
       (run_query e (params_get params ''QUERY'' []))"
  using assms by (simp add: sync_query_def Let_def)

text \<open>
  C8, as stated, fails: a request whose query text is empty is not an introspection
  request, and yet it is not treated as a data query. Here the data-query path on the
  empty text would answer with status 200, and the endpoint rejects the request with
  status 400 before it classifies it.
\<close>

theorem empty_query_rejected:
  "\<not> is_tap_schema_query [] \<and>
   status_of (complete (example_env (descriptor ''ztf_dr22'' None)) [] ''votable''
                (data_query (example_env (descriptor ''ztf_dr22'' None)) [])) = Some 200 \<and>
   sync_query (example_env (descriptor ''ztf_dr22'' None)) (sync_params []) =
     respond_with
       (create_error_votable (example_env (descriptor ''ztf_dr22'' None))
          ''Missing required parameter: QUERY'' []) 400 \<and>
   status_of (sync_query (example_env (descriptor ''ztf_dr22'' None)) (sync_params [])) =
     Some 400"
proof -
  have "status_of (complete (example_env (descriptor ''ztf_dr22'' None)) [] ''votable''
                (data_query (example_env (descriptor ''ztf_dr22'' None)) [])) = Some 200"
    by code_simp
  moreover have
    "status_of (sync_query (example_env (descriptor ''ztf_dr22'' None)) (sync_params [])) =
       Some 400"
    by code_simp
  ultimately show ?thesis
    by (simp add: is_tap_schema_query_def sync_query_def sync_params_get lang_supported_ADQL)
qed

text \<open>
  C8, amended. The classifier holds exactly of the texts whose lower-cased form contains
  the marker \<open>tap_schema.\<close> (so not of the empty text). A request that passes the
  parameter checks (REQUEST is \<open>doQuery\<close>, LANG starts with \<open>adql\<close>, QUERY is not empty)
  is executed directly against the Metadata Store when its text contains the marker, and
  is treated as a data query otherwise.
\<close>

theorem routing:
  "(is_tap_schema_query q \<longleftrightarrow> sublist ''tap_schema.'' (lower q)) \<and>
   (params_get params ''REQUEST'' [] = ''doQuery'' \<and>
    lang_supported (params_get params ''LANG'' ''ADQL'') \<and>
    params_get params ''QUERY'' [] = q \<and> q \<noteq> [] \<longrightarrow>
    sync_query e params =
      complete e q (lower (params_get params ''FORMAT'' ''votable''))
        (if sublist ''tap_schema.'' (lower q)
         then Inr (fst (query_tap_schema e q), snd (query_tap_schema e q), ''tap_schema'')
         else data_query e q)) \<and>
   (params_get params' ''REQUEST'' [] = ''doQuery'' \<and>
    lang_supported (params_get params' ''LANG'' ''ADQL'') \<and>
    params_get params' ''QUERY'' [] = [] \<longrightarrow>
    sync_query e params' =
      respond_with (create_error_votable e ''Missing required parameter: QUERY'' []) 400 \<and>
    status_of (sync_query e params') = Some 400)"
proof (intro conjI impI)
  show "is_tap_schema_query q \<longleftrightarrow> sublist ''tap_schema.'' (lower q)"
    by (rule is_tap_schema_query_iff)
next
  assume a: "params_get params ''REQUEST'' [] = ''doQuery'' \<and>
    lang_supported (params_get params ''LANG'' ''ADQL'') \<and>
    params_get params ''QUERY'' [] = q \<and> q \<noteq> []"
  then have "sync_query e params =
     complete e q (lower (params_get params ''FORMAT'' ''votable'')) (run_query e q)"
    using sync_query_valid [of params e] by auto
  then show "sync_query e params =
      complete e q (lower (params_get params ''FORMAT'' ''votable''))
        (if sublist ''tap_schema.'' (lower q)
         then Inr (fst (query_tap_schema e q), snd (query_tap_schema e q), ''tap_schema'')
         else data_query e q)"
    by (simp add: run_query_def is_tap_schema_query_iff split: prod.splits)
next
  assume a: "params_get params' ''REQUEST'' [] = ''doQuery'' \<and>
    lang_supported (params_get params' ''LANG'' ''ADQL'') \<and>
    params_get params' ''QUERY'' [] = []"
  then show "sync_query e params' =
      respond_with (create_error_votable e ''Missing required parameter: QUERY'' []) 400"
    by (simp add: sync_query_def)
  have "xml_safe ''Missing required parameter: QUERY''"
    by code_simp
  with a show "status_of (sync_query e params') = Some 400"
    by (simp add: sync_query_def respond_with_def create_error_votable_def
        format_xml_with_indentation_def parse_document_def serializable_error xml_safe_Nil
        status_of_def Response_def)
qed

theorem routing_witness:
  "params_get (sync_params q_schemas) ''REQUEST'' [] = ''doQuery'' \<and>
   lang_supported (params_get (sync_params q_schemas) ''LANG'' ''ADQL'') \<and>
   params_get (sync_params q_schemas) ''QUERY'' [] = q_schemas \<and> q_schemas \<noteq> [] \<and>
   is_tap_schema_query q_schemas \<and>
   sync_query (example_env (descriptor ''ztf_dr22'' None)) (sync_params q_schemas) =
     complete (example_env (descriptor ''ztf_dr22'' None)) q_schemas ''votable''
       (Inr ([[''schema_name'' \<mapsto> PyStr ''gaia_dr3'']], [''schema_name''], ''tap_schema'')) \<and>
   params_get (sync_params []) ''REQUEST'' [] = ''doQuery'' \<and>
   lang_supported (params_get (sync_params []) ''LANG'' ''ADQL'') \<and>
   params_get (sync_params []) ''QUERY'' [] = [] \<and>
   status_of (sync_query (example_env (descriptor ''ztf_dr22'' None)) (sync_params [])) =
     Some 400"
proof -
  have "sublist ''tap_schema.'' (lower q_schemas)"
    using q_schemas_tap by (simp only: is_tap_schema_query_iff)
  moreover have
    "query_tap_schema (example_env (descriptor ''ztf_dr22'' None)) q_schemas =
       ([[''schema_name'' \<mapsto> PyStr ''gaia_dr3'']], [''schema_name''])"
    by (simp add: query_tap_schema_def example_env_def)
  ultimately show ?thesis
    using routing [of q_schemas "sync_params q_schemas"
        "example_env (descriptor ''ztf_dr22'' None)" "sync_params []"]
    by (auto simp add: sync_params_get example_facts)
qed

section \<open>Properties: errors of the Metadata Store\<close>

lemma get_column_metadata_first_raises:
  "db_query e columns_sql [Some t] = Inl err \<Longrightarrow> get_column_metadata e t = []"
  by (simp add: get_column_metadata_def get_column_metadata_traced_def
      get_column_metadata_try_def split: option.splits)

lemma get_column_metadata_retry_raises:
  "db_query e columns_sql [Some (''public.'' @ t)] = Inl err \<Longrightarrow>
   db_query e columns_sql [Some t] = Inr [] \<Longrightarrow> CHR ''.'' \<notin> set t \<Longrightarrow>
   get_column_metadata e t = []"
  by (simp add: get_column_metadata_def get_column_metadata_traced_def
      get_column_metadata_try_def contains_char split: option.splits)

lemma respond_without_metadata:
  "get_column_metadata e t = [] \<Longrightarrow>
   respond e q ofmt (data, cols, t) =
     (if ofmt \<in> set [''votable'', ''votable/td'']
      then respond_with
             (create_votable_response e data cols \<lparr>qi_query = q, qi_table = t\<rparr> []) 200
      else respond_with (create_error_votable e (''Unsupported format: '' @ ofmt) q) 400)"
  by (simp add: respond_def)

lemma tap_schema_safe: "xml_safe ''tap_schema''"
  by code_simp

lemma empty_table_element:
  "votable_element e [] [] qi md = votable_element e [] [] qi []"
  by (simp add: votable_element_def)

lemma empty_table_serializable:
  "serializable (votable_element e [] [] \<lparr>qi_query = q, qi_table = ''tap_schema''\<rparr> md) \<longleftrightarrow>
     xml_safe q \<and> xml_safe (utc_now e)"
  by (simp add: serializable_votable tap_schema_safe)

lemma respond_empty_table:
  "ofmt \<in> set [''votable'', ''votable/td''] \<Longrightarrow> xml_safe q \<Longrightarrow> xml_safe (utc_now e) \<Longrightarrow>
   respond e q ofmt ([], [], ''tap_schema'') =
     Inr (Response
            (write_document e
               (parsed (votable_element e [] []
                          \<lparr>qi_query = q, qi_table = ''tap_schema''\<rparr> [])))
            200)"
  using empty_table_element [of e "\<lparr>qi_query = q, qi_table = ''tap_schema''\<rparr>"
      "get_column_metadata e ''tap_schema''"]
  by (simp add: respond_def respond_with_def create_votable_response_def
      format_xml_with_indentation_def parse_document_def empty_table_serializable)

lemma complete_Inr: "respond e q ofmt r = Inr resp \<Longrightarrow> complete e q ofmt (Inr r) = Inr resp"
  by (simp add: complete_def)

lemma respond_unsupported:
  "ofmt \<notin> set [''votable'', ''votable/td''] \<Longrightarrow>
   respond e q ofmt r =
     respond_with (create_error_votable e (''Unsupported format: '' @ ofmt) q) 400"
  by (cases r) (simp add: respond_def)

lemma unsupported_format_safe:
  "xml_safe (''Unsupported format: '' @ ofmt) \<longleftrightarrow> xml_safe ofmt"
proof -
  have "xml_safe ''Unsupported format: ''"
    by code_simp
  then show ?thesis
    by (simp only: xml_safe_append simp_thms)
qed

lemma error_response_safe:
  "xml_safe msg \<Longrightarrow> xml_safe q \<Longrightarrow>
   respond_with (create_error_votable e msg q) code =
     Inr (Response (write_document e (parsed (error_element msg q))) code)"
  by (simp add: respond_with_def create_error_votable_def format_xml_with_indentation_def
      parse_document_def serializable_error)

lemma respond_unsupported_safe:
  "ofmt \<notin> set [''votable'', ''votable/td''] \<Longrightarrow> xml_safe q \<Longrightarrow> xml_safe ofmt \<Longrightarrow>
   respond e q ofmt r =
     Inr (Response
            (write_document e (parsed (error_element (''Unsupported format: '' @ ofmt) q)))
            400)"
  using respond_unsupported [of ofmt e q r] unsupported_format_safe [of ofmt]
    error_response_safe [of "''Unsupported format: '' @ ofmt" q e 400]
  by simp

text \<open>
  C2, as stated, fails for the introspection path: the store rejects the malformed
  statement, and the request does not fail: the endpoint answers with status 200 and a
  document whose status entry is \<open>OK\<close>.
\<close>

theorem introspection_error_is_ok_response:
  "db_query_with_columns (example_env (descriptor ''ztf_dr22'' None)) q_malformed =
     Inl (Raised ''near FORM: syntax error'') \<and>
   sync_query (example_env (descriptor ''ztf_dr22'' None)) (sync_params q_malformed) =
     Inr (Response
            (write_document (example_env (descriptor ''ztf_dr22'' None))
               (parsed (votable_element (example_env (descriptor ''ztf_dr22'' None)) [] []
                          \<lparr>qi_query = q_malformed, qi_table = ''tap_schema''\<rparr> [])))
            200) \<and>
   infos (parsed (votable_element (example_env (descriptor ''ztf_dr22'' None)) [] []
                    \<lparr>qi_query = q_malformed, qi_table = ''tap_schema''\<rparr> [])) =
     [(''QUERY_STATUS'', ''OK''), (''QUERY'', q_malformed),
      (''TIMESTAMP'', ''2026-01-01T00:00:00+00:00'')]"
proof -
  have "xml_safe q_malformed" "xml_safe ''2026-01-01T00:00:00+00:00''"
    by code_simp+
  then have "respond (example_env (descriptor ''ztf_dr22'' None)) q_malformed ''votable''
          ([], [], ''tap_schema'') =
     Inr (Response
            (write_document (example_env (descriptor ''ztf_dr22'' None))
               (parsed (votable_element (example_env (descriptor ''ztf_dr22'' None)) [] []
                          \<lparr>qi_query = q_malformed, qi_table = ''tap_schema''\<rparr> [])))
            200)"
    by (intro respond_empty_table) (simp_all add: example_env_def)
  moreover have
    "run_query (example_env (descriptor ''ztf_dr22'' None)) q_malformed =
       Inr ([], [], ''tap_schema'')"
    by (simp add: run_query_def query_tap_schema_def example_facts example_env_def)
  moreover have
    "db_query_with_columns (example_env (descriptor ''ztf_dr22'' None)) q_malformed =
       Inl (Raised ''near FORM: syntax error'')"
    by (simp add: example_env_def example_facts)
  moreover have "utc_now (example_env (descriptor ''ztf_dr22'' None)) =
      ''2026-01-01T00:00:00+00:00''"
    by (simp add: example_env_def)
  ultimately show ?thesis
    by (simp add: sync_query_example example_facts complete_Inr infos_parsed infos_ok)
qed

text \<open>
  C2, amended. An error raised by a store query is caught on both paths and does not
  fail the request. For an introspection request the result degrades to no rows and no
  columns, and the request is completed as for that result: for an unsupported FORMAT
  with the error document of status 400, and for a supported one, when the query text
  and the timestamp hold only characters that XML 1.0 can carry, with status 200 and
  the success document of an empty table. For a column-metadata lookup, an error of the
  first query or of the retry with the \<open>public.\<close> prefix degrades the result to the
  empty metadata dict, and the response is built as for a table without stored metadata.
\<close>

theorem store_query_error_degrades:
  "(db_query_with_columns e q = Inl err \<longrightarrow>
      query_tap_schema e q = ([], []) \<and>
      (is_tap_schema_query q \<and> request_valid params \<and>
       params_get params ''QUERY'' [] = q \<and>
       lower (params_get params ''FORMAT'' ''votable'') = ofmt \<longrightarrow>
         sync_query e params = complete e q ofmt (Inr ([], [], ''tap_schema'')) \<and>
         (ofmt \<in> set [''votable'', ''votable/td''] \<and> xml_safe q \<and>
          xml_safe (utc_now e) \<longrightarrow>
            sync_query e params =
              Inr (Response
                     (write_document e
                        (parsed (votable_element e [] []
                                   \<lparr>qi_query = q, qi_table = ''tap_schema''\<rparr> [])))
                     200)) \<and>
         (ofmt \<notin> set [''votable'', ''votable/td''] \<and> xml_safe q \<and> xml_safe ofmt \<longrightarrow>
            sync_query e params =
              Inr (Response
                     (write_document e
                        (parsed (error_element (''Unsupported format: '' @ ofmt) q)))
                     400)))) \<and>
   (db_query e columns_sql [Some t] = Inl err' \<or>
    db_query e columns_sql [Some t] = Inr [] \<and> CHR ''.'' \<notin> set t \<and>
    db_query e columns_sql [Some (''public.'' @ t)] = Inl err' \<longrightarrow>
      get_column_metadata e t = [] \<and>
      respond e q' output_format (data, cols, t) =
        (if output_format \<in> set [''votable'', ''votable/td'']
         then respond_with
                (create_votable_response e data cols \<lparr>qi_query = q', qi_table = t\<rparr> [])
                200
         else respond_with
                (create_error_votable e (''Unsupported format: '' @ output_format) q')
                400))"
proof (rule conjI; rule impI)
  assume raised: "db_query_with_columns e q = Inl err"
  then have none: "query_tap_schema e q = ([], [])"
    by (simp add: query_tap_schema_def)
  have "is_tap_schema_query q \<and> request_valid params \<and>
       params_get params ''QUERY'' [] = q \<and>
       lower (params_get params ''FORMAT'' ''votable'') = ofmt \<longrightarrow>
         sync_query e params = complete e q ofmt (Inr ([], [], ''tap_schema'')) \<and>
         (ofmt \<in> set [''votable'', ''votable/td''] \<and> xml_safe q \<and>
          xml_safe (utc_now e) \<longrightarrow>
            sync_query e params =
              Inr (Response
                     (write_document e
                        (parsed (votable_element e [] []
                                   \<lparr>qi_query = q, qi_table = ''tap_schema''\<rparr> [])))
                     200)) \<and>
         (ofmt \<notin> set [''votable'', ''votable/td''] \<and> xml_safe q \<and> xml_safe ofmt \<longrightarrow>
            sync_query e params =
              Inr (Response
                     (write_document e
                        (parsed (error_element (''Unsupported format: '' @ ofmt) q)))
                     400))"
  proof (rule impI)
    assume a: "is_tap_schema_query q \<and> request_valid params \<and>
       params_get params ''QUERY'' [] = q \<and>
       lower (params_get params ''FORMAT'' ''votable'') = ofmt"
    then have "sync_query e params = complete e q ofmt (run_query e q)"
      using sync_query_valid [of params e] by (auto simp: request_valid_def)
    moreover have "run_query e q = Inr ([], [], ''tap_schema'')"
      using a none by (simp add: run_query_def)
    ultimately have s: "sync_query e params = complete e q ofmt (Inr ([], [], ''tap_schema''))"
      by simp
    show "sync_query e params = complete e q ofmt (Inr ([], [], ''tap_schema'')) \<and>
         (ofmt \<in> set [''votable'', ''votable/td''] \<and> xml_safe q \<and>
          xml_safe (utc_now e) \<longrightarrow>
            sync_query e params =
              Inr (Response
                     (write_document e
                        (parsed (votable_element e [] []
                                   \<lparr>qi_query = q, qi_table = ''tap_schema''\<rparr> [])))
                     200)) \<and>
         (ofmt \<notin> set [''votable'', ''votable/td''] \<and> xml_safe q \<and> xml_safe ofmt \<longrightarrow>
            sync_query e params =
              Inr (Response
                     (write_document e
                        (parsed (error_element (''Unsupported format: '' @ ofmt) q)))
                     400))"
      unfolding s
      by (intro conjI impI refl complete_Inr respond_empty_table respond_unsupported_safe)
        simp_all
  qed
  with none show "query_tap_schema e q = ([], []) \<and>
      (is_tap_schema_query q \<and> request_valid params \<and>
       params_get params ''QUERY'' [] = q \<and>
       lower (params_get params ''FORMAT'' ''votable'') = ofmt \<longrightarrow>
         sync_query e params = complete e q ofmt (Inr ([], [], ''tap_schema'')) \<and>
         (ofmt \<in> set [''votable'', ''votable/td''] \<and> xml_safe q \<and>
          xml_safe (utc_now e) \<longrightarrow>
            sync_query e params =
              Inr (Response
                     (write_document e
                        (parsed (votable_element e [] []
                                   \<lparr>qi_query = q, qi_table = ''tap_schema''\<rparr> [])))
                     200)) \<and>
         (ofmt \<notin> set [''votable'', ''votable/td''] \<and> xml_safe q \<and> xml_safe ofmt \<longrightarrow>
            sync_query e params =
              Inr (Response
                     (write_document e
                        (parsed (error_element (''Unsupported format: '' @ ofmt) q)))
                     400)))"
    by (rule conjI)
next
  assume "db_query e columns_sql [Some t] = Inl err' \<or>
    db_query e columns_sql [Some t] = Inr [] \<and> CHR ''.'' \<notin> set t \<and>
    db_query e columns_sql [Some (''public.'' @ t)] = Inl err'"
  then have "get_column_metadata e t = []"
    using get_column_metadata_first_raises [of e t err']
      get_column_metadata_retry_raises [of e t err']
    by blast
  then show "get_column_metadata e t = [] \<and>
      respond e q' output_format (data, cols, t) =
        (if output_format \<in> set [''votable'', ''votable/td'']
         then respond_with
                (create_votable_response e data cols \<lparr>qi_query = q', qi_table = t\<rparr> [])
                200
         else respond_with
                (create_error_votable e (''Unsupported format: '' @ output_format) q')
                400)"
    using respond_without_metadata [of e t q' output_format data cols] by simp
qed

lemma broken_store_facts:
  "db_query_with_columns broken_store_env q_malformed =
     Inl (Raised ''near FORM: syntax error'')"
  "utc_now broken_store_env = ''2026-01-01T00:00:00+00:00''"
  "db_query broken_store_env columns_sql [Some ''ztf_dr22''] =
     Inl (Raised ''no such table: columns'')"
  "db_query broken_retry_env columns_sql [Some ''ztf_dr22''] = Inr []"
  "db_query broken_retry_env columns_sql [Some ''public.ztf_dr22''] =
     Inl (Raised ''no such table: columns'')"
  "db_query_with_columns broken_retry_env q_malformed =
     Inl (Raised ''near FORM: syntax error'')"
  "utc_now broken_retry_env = ''2026-01-01T00:00:00+00:00''"
  by (simp_all add: broken_store_env_def broken_retry_env_def example_env_def example_facts)

lemma csv_facts:
  "lower ''csv'' = ''csv''" "xml_safe ''csv''" "xml_safe q_malformed"
  "xml_safe ''2026-01-01T00:00:00+00:00''"
  by code_simp+

lemma csv_params:
  "request_valid ((sync_params q) (''FORMAT'' \<mapsto> ''csv'')) \<longleftrightarrow> q \<noteq> []"
  "request_valid (sync_params q) \<longleftrightarrow> q \<noteq> []"
  "params_get ((sync_params q) (''FORMAT'' \<mapsto> ''csv'')) ''QUERY'' [] = q"
  "params_get ((sync_params q) (''FORMAT'' \<mapsto> ''csv'')) ''FORMAT'' ''votable'' = ''csv''"
  by (simp_all add: request_valid_def sync_params_def params_get_def lang_supported_ADQL)

theorem store_query_error_degrades_witness:
  "db_query_with_columns broken_store_env q_malformed =
     Inl (Raised ''near FORM: syntax error'') \<and>
   is_tap_schema_query q_malformed \<and> request_valid (sync_params q_malformed) \<and>
   query_tap_schema broken_store_env q_malformed = ([], []) \<and>
   sync_query broken_store_env (sync_params q_malformed) =
     Inr (Response
            (write_document broken_store_env
               (parsed (votable_element broken_store_env [] []
                          \<lparr>qi_query = q_malformed, qi_table = ''tap_schema''\<rparr> [])))
            200) \<and>
   request_valid ((sync_params q_malformed) (''FORMAT'' \<mapsto> ''csv'')) \<and>
   sync_query broken_store_env ((sync_params q_malformed) (''FORMAT'' \<mapsto> ''csv'')) =
     Inr (Response
            (write_document broken_store_env
               (parsed (error_element (''Unsupported format: '' @ ''csv'') q_malformed)))
            400) \<and>
   db_query broken_store_env columns_sql [Some ''ztf_dr22''] =
     Inl (Raised ''no such table: columns'') \<and>
   get_column_metadata broken_store_env ''ztf_dr22'' = [] \<and>
   db_query broken_retry_env columns_sql [Some ''ztf_dr22''] = Inr [] \<and>
   CHR ''.'' \<notin> set ''ztf_dr22'' \<and>
   db_query broken_retry_env columns_sql [Some ''public.ztf_dr22''] =
     Inl (Raised ''no such table: columns'') \<and>
   get_column_metadata broken_retry_env ''ztf_dr22'' = []"
  using
    store_query_error_degrades
      [where e = broken_store_env and q = q_malformed
         and err = "Raised ''near FORM: syntax error''"
         and params = "sync_params q_malformed" and ofmt = "''votable''"
         and t = "''ztf_dr22''" and err' = "Raised ''no such table: columns''"
         and q' = q_gaia and output_format = "''votable''" and data = "[]" and cols = "[]"]
    store_query_error_degrades
      [where e = broken_store_env and q = q_malformed
         and err = "Raised ''near FORM: syntax error''"
         and params = "(sync_params q_malformed) (''FORMAT'' \<mapsto> ''csv'')"
         and ofmt = "''csv''"
         and t = "''ztf_dr22''" and err' = "Raised ''no such table: columns''"
         and q' = q_gaia and output_format = "''votable''" and data = "[]" and cols = "[]"]
    store_query_error_degrades
      [where e = broken_retry_env and q = q_malformed
         and err = "Raised ''near FORM: syntax error''"
         and params = "sync_params q_malformed" and ofmt = "''votable''"
         and t = "''ztf_dr22''" and err' = "Raised ''no such table: columns''"
         and q' = q_gaia and output_format = "''votable''" and data = "[]" and cols = "[]"]
  by (auto simp add: broken_store_facts csv_facts csv_params sync_params_get example_facts)

section \<open>Properties: field descriptors\<close>

lemma lower_flux: "lower ''flux'' = ''flux''"
  by code_simp

lemma stored_lookup:
  "(if md = [] then None else map_of md (Some col)) = map_of md (Some col)"
  by simp

lemma field_attrs_explicit:
  "field_attrs md col =
     (case map_of md (Some col) of
        Some m \<Rightarrow>
          [(''name'', col),
           (''datatype'',
            case m_datatype m of
              None \<Rightarrow> ''double''
            | Some s \<Rightarrow> if s = [] then ''double'' else s),
           (''unit'', case m_unit m of None \<Rightarrow> [] | Some s \<Rightarrow> s)]
          @ (case m_ucd m of
               None \<Rightarrow> []
             | Some s \<Rightarrow> if s = [] then [] else [(''ucd'', s)])
      | None \<Rightarrow>
          [(''name'', col), (''datatype'', ''double'')]
          @ (if lower col \<in> set [''ra'', ''ra_deg'']
             then [(''unit'', ''deg''), (''ucd'', ''pos.eq.ra;meta.main'')]
             else if lower col \<in> set [''dec'', ''dec_deg'']
             then [(''unit'', ''deg''), (''ucd'', ''pos.eq.dec;meta.main'')]
             else if lower col \<in> set [''mag'', ''magnitude'']
             then [(''unit'', ''mag''), (''ucd'', ''phot.mag'')]
             else [(''unit'', [])]))"
  unfolding field_attrs_def stored_lookup
  by (simp add: set_if_known_def Let_def split: option.splits)

lemma parsed_FIELD: "parsed (FIELD md col) = FIELD md col"
  by (simp add: FIELD_def)

lemma unsafe_column_raises:
  "col \<in> set cols \<Longrightarrow> \<not> xml_safe col \<Longrightarrow>
   create_votable_response e data cols qi md =
     Inl (ExpatError (expat_message e (votable_element e data cols qi md)))"
proof -
  assume c: "col \<in> set cols" and u: "\<not> xml_safe col"
  have "(''name'', col) \<in> set (field_attrs md col)"
    by (simp add: field_attrs_explicit split: option.splits)
  with u have "\<not> (\<forall>kv \<in> set (field_attrs md col). xml_safe (snd kv))"
    by force
  with c have "\<not> serializable (votable_element e data cols qi md)"
    unfolding serializable_votable by blast
  then show ?thesis
    by (simp add: create_votable_response_def format_Inl)
qed

lemma flux_serializable:
  "serializable (votable_element (example_env (descriptor ''ztf_dr22'' None)) [] [''flux'']
     \<lparr>qi_query = q_gaia, qi_table = ''results''\<rparr> [])"
  by code_simp

text \<open>
  C4, as stated, fails for the unit attribute: for a column without stored metadata that
  matches no astronomical role, the field descriptor of the document still carries a unit
  attribute, with the empty value.
\<close>

theorem unit_attribute_always_emitted:
  "create_votable_response (example_env (descriptor ''ztf_dr22'' None)) [] [''flux'']
     \<lparr>qi_query = q_gaia, qi_table = ''results''\<rparr> [] =
     Inr (write_document (example_env (descriptor ''ztf_dr22'' None))
            (parsed (votable_element (example_env (descriptor ''ztf_dr22'' None)) []
               [''flux''] \<lparr>qi_query = q_gaia, qi_table = ''results''\<rparr> []))) \<and>
   map attrib
     (findall [''RESOURCE'', ''TABLE'', ''FIELD'']
        (parsed (votable_element (example_env (descriptor ''ztf_dr22'' None)) []
           [''flux''] \<lparr>qi_query = q_gaia, qi_table = ''results''\<rparr> []))) =
   [[(''name'', ''flux''), (''datatype'', ''double''), (''unit'', [])]]"
  unfolding findall_parsed findall_fields
  using lower_flux flux_serializable
  by (simp add: create_votable_response_def format_Inr FIELD_def field_attrs_def)

text \<open>
  C4, amended. When the parser accepts the serialization of the element tree, the
  function returns the writing of the parsed document, and that document holds exactly
  one field descriptor for every output column, in column order, with these attributes
  and no others. The name is the column name. For a column with stored metadata, the
  datatype is the stored one, or \<open>double\<close> when none is stored; the unit attribute is
  always present, with the stored unit or else the empty value; the UCD attribute is
  present only when a UCD is stored. For a column without stored metadata the datatype is
  \<open>double\<close>, and unit and UCD are those of the astronomical role that the lower-cased
  name denotes (\<open>ra\<close>, \<open>ra_deg\<close>; \<open>dec\<close>, \<open>dec_deg\<close>; \<open>mag\<close>, \<open>magnitude\<close>), or
  else an empty unit and no UCD. When a column name holds a character that XML 1.0 cannot
  carry, the function raises the parser's error and there is no document.
\<close>

theorem field_descriptors:
  "(parse_document e (votable_element e data cols qi md) = Inr doc \<longrightarrow>
      create_votable_response e data cols qi md = Inr (write_document e doc) \<and>
      findall [''RESOURCE'', ''TABLE'', ''FIELD''] doc =
        map (\<lambda>col.
               Element ''FIELD''
                 (case map_of md (Some col) of
                    Some m \<Rightarrow>
                      [(''name'', col),
                       (''datatype'',
                        case m_datatype m of
                          None \<Rightarrow> ''double''
                        | Some s \<Rightarrow> if s = [] then ''double'' else s),
                       (''unit'', case m_unit m of None \<Rightarrow> [] | Some s \<Rightarrow> s)]
                      @ (case m_ucd m of
                           None \<Rightarrow> []
                         | Some s \<Rightarrow> if s = [] then [] else [(''ucd'', s)])
                  | None \<Rightarrow>
                      [(''name'', col), (''datatype'', ''double'')]
                      @ (if lower col \<in> set [''ra'', ''ra_deg'']
                         then [(''unit'', ''deg''), (''ucd'', ''pos.eq.ra;meta.main'')]
                         else if lower col \<in> set [''dec'', ''dec_deg'']
                         then [(''unit'', ''deg''), (''ucd'', ''pos.eq.dec;meta.main'')]
                         else if lower col \<in> set [''mag'', ''magnitude'']
                         then [(''unit'', ''mag''), (''ucd'', ''phot.mag'')]
                         else [(''unit'', [])]))
                 None [])
          cols) \<and>
   (bad_col \<in> set cols \<and> \<not> xml_safe bad_col \<longrightarrow>
      create_votable_response e data cols qi md =
        Inl (ExpatError (expat_message e (votable_element e data cols qi md))))"
proof (intro conjI impI)
  assume p: "parse_document e (votable_element e data cols qi md) = Inr doc"
  then show "create_votable_response e data cols qi md = Inr (write_document e doc)"
    by (rule create_votable_response_parsed)
  from p have doc: "doc = parsed (votable_element e data cols qi md)"
    by (simp add: parse_document_Inr)
  show "findall [''RESOURCE'', ''TABLE'', ''FIELD''] doc =
        map (\<lambda>col.
               Element ''FIELD''
                 (case map_of md (Some col) of
                    Some m \<Rightarrow>
                      [(''name'', col),
                       (''datatype'',
                        case m_datatype m of
                          None \<Rightarrow> ''double''
                        | Some s \<Rightarrow> if s = [] then ''double'' else s),
                       (''unit'', case m_unit m of None \<Rightarrow> [] | Some s \<Rightarrow> s)]
                      @ (case m_ucd m of
                           None \<Rightarrow> []
                         | Some s \<Rightarrow> if s = [] then [] else [(''ucd'', s)])
                  | None \<Rightarrow>
                      [(''name'', col), (''datatype'', ''double'')]
                      @ (if lower col \<in> set [''ra'', ''ra_deg'']
                         then [(''unit'', ''deg''), (''ucd'', ''pos.eq.ra;meta.main'')]
                         else if lower col \<in> set [''dec'', ''dec_deg'']
                         then [(''unit'', ''deg''), (''ucd'', ''pos.eq.dec;meta.main'')]
                         else if lower col \<in> set [''mag'', ''magnitude'']
                         then [(''unit'', ''mag''), (''ucd'', ''phot.mag'')]
                         else [(''unit'', [])]))
                 None [])
          cols"
    unfolding doc findall_parsed findall_fields
    by (simp add: parsed_FIELD) (simp add: FIELD_def field_attrs_explicit)
next
  assume "bad_col \<in> set cols \<and> \<not> xml_safe bad_col"
  then show "create_votable_response e data cols qi md =
        Inl (ExpatError (expat_message e (votable_element e data cols qi md)))"
    using unsafe_column_raises [of bad_col cols e data qi md] by simp
qed

lemma stored_example_serializable:
  "serializable
     (votable_element (example_env (descriptor ''gaia_dr3.gaia'' None)) []
        [''ra'', ''source_id'', ''dec'', ''flux'']
        \<lparr>qi_query = q_gaia, qi_table = ''gaia_dr3.gaia''\<rparr> example_metadata)"
  by code_simp

lemma stored_example_lower:
  "lower ''ra'' = ''ra''" "lower ''source_id'' = ''source_id''" "lower ''dec'' = ''dec''"
  "\<not> xml_safe [CHR ''r'', CHR 0x1F]"
  by code_simp+

theorem field_descriptors_witness:
  "parse_document (example_env (descriptor ''gaia_dr3.gaia'' None))
     (votable_element (example_env (descriptor ''gaia_dr3.gaia'' None)) []
        [''ra'', ''source_id'', ''dec'', ''flux'']
        \<lparr>qi_query = q_gaia, qi_table = ''gaia_dr3.gaia''\<rparr> example_metadata) =
     Inr (parsed
            (votable_element (example_env (descriptor ''gaia_dr3.gaia'' None)) []
               [''ra'', ''source_id'', ''dec'', ''flux'']
               \<lparr>qi_query = q_gaia, qi_table = ''gaia_dr3.gaia''\<rparr> example_metadata)) \<and>
   create_votable_response (example_env (descriptor ''gaia_dr3.gaia'' None)) []
     [''ra'', ''source_id'', ''dec'', ''flux'']
     \<lparr>qi_query = q_gaia, qi_table = ''gaia_dr3.gaia''\<rparr> example_metadata =
     Inr (write_document (example_env (descriptor ''gaia_dr3.gaia'' None))
            (parsed
               (votable_element (example_env (descriptor ''gaia_dr3.gaia'' None)) []
                  [''ra'', ''source_id'', ''dec'', ''flux'']
                  \<lparr>qi_query = q_gaia, qi_table = ''gaia_dr3.gaia''\<rparr> example_metadata))) \<and>
   findall [''RESOURCE'', ''TABLE'', ''FIELD'']
     (parsed
        (votable_element (example_env (descriptor ''gaia_dr3.gaia'' None)) []
           [''ra'', ''source_id'', ''dec'', ''flux'']
           \<lparr>qi_query = q_gaia, qi_table = ''gaia_dr3.gaia''\<rparr> example_metadata)) =
     [Element ''FIELD''
        [(''name'', ''ra''), (''datatype'', ''float''), (''unit'', ''deg''),
         (''ucd'', ''pos.eq.ra'')] None [],
      Element ''FIELD''
        [(''name'', ''source_id''), (''datatype'', ''long''), (''unit'', [])] None [],
      Element ''FIELD''
        [(''name'', ''dec''), (''datatype'', ''double''), (''unit'', ''deg''),
         (''ucd'', ''pos.eq.dec;meta.main'')] None [],
      Element ''FIELD''
        [(''name'', ''flux''), (''datatype'', ''double''), (''unit'', [])] None []] \<and>
   [CHR ''r'', CHR 0x1F] \<in> set [[CHR ''r'', CHR 0x1F]] \<and>
   \<not> xml_safe [CHR ''r'', CHR 0x1F] \<and>
   create_votable_response (example_env (descriptor ''gaia_dr3.gaia'' None)) []
     [[CHR ''r'', CHR 0x1F]] \<lparr>qi_query = q_gaia, qi_table = ''gaia_dr3.gaia''\<rparr> [] =
     Inl (ExpatError ''not well-formed (invalid token)'')"
  using stored_example_serializable stored_example_lower lower_flux
    field_descriptors
      [where e = "example_env (descriptor ''gaia_dr3.gaia'' None)" and data = "[]"
         and cols = "[''ra'', ''source_id'', ''dec'', ''flux'']"
         and qi = "\<lparr>qi_query = q_gaia, qi_table = ''gaia_dr3.gaia''\<rparr>"
         and md = example_metadata
         and doc = "parsed
            (votable_element (example_env (descriptor ''gaia_dr3.gaia'' None)) []
               [''ra'', ''source_id'', ''dec'', ''flux'']
               \<lparr>qi_query = q_gaia, qi_table = ''gaia_dr3.gaia''\<rparr> example_metadata)"
         and bad_col = "''ra''"]
    field_descriptors
      [where e = "example_env (descriptor ''gaia_dr3.gaia'' None)" and data = "[]"
         and cols = "[[CHR ''r'', CHR 0x1F]]"
         and qi = "\<lparr>qi_query = q_gaia, qi_table = ''gaia_dr3.gaia''\<rparr>"
         and md = "[]" and bad_col = "[CHR ''r'', CHR 0x1F]"]
  by (simp add: parse_document_Inr example_env_def example_metadata_def)

section \<open>Properties: the shape of every response\<close>

















section \<open>Properties: the spatial predicate\<close>

lemma build_search_filter_other:
  assumes "spatial_search ents = Some sp" and "map_of sp ''type'' = Some ty"
    and "ty \<noteq> SStr ''ConeSearch''"
  shows "build_search_filter e ents = Inr None"
  using assms by (auto simp: build_search_filter_def spatial_get_def)

lemma build_search_filter_none:
  "spatial_search ents = None \<Longrightarrow> build_search_filter e ents = Inr None"
  by (simp add: build_search_filter_def)

lemma data_query_parsed:
  "parse_adql_entities e q = Inr ents \<Longrightarrow>
   data_query e q =
     (case tables ents of
        [] \<Rightarrow> Inl AssertionError
      | table # _ \<Rightarrow>
          (case make_catalog_url table of
             Inl err \<Rightarrow> Inl err
           | Inr url \<Rightarrow>
               (case build_search_filter e ents of
                  Inl err \<Rightarrow> Inl err
                | Inr flt \<Rightarrow>
                    (case open_catalog_head e
                            \<lparr>catalog_url = url, req_columns = columns ents,
                             search_filter = flt, filters = conditions ents,
                             head_rows = limits ents\<rparr> of
                       Inl err \<Rightarrow> Inl err
                     | Inr (data, result_columns) \<Rightarrow>
                         Inr (data, result_columns, extract_table_name q)))))"
  by (simp add: data_query_def)

lemma make_catalog_url_gaia:
  "make_catalog_url ''gaia_dr3.gaia'' = Inr ''/var/www/data.lsdb.io/html/hats/gaia_dr3/gaia/''"
  by (simp add: make_catalog_url_def catalog_prefix_def)

text \<open>
  C6. When the descriptor's \<open>spatial_search\<close> has a type tag other than \<open>ConeSearch\<close>
  (\<open>PolygonSearch\<close>, for one), no predicate is built and no error is raised, and the data
  query proceeds exactly as for the same descriptor without a spatial search: the
  catalog is opened without a spatial filter.
\<close>

theorem other_spatial_variants_dropped:
  assumes "parse_adql_entities e q = Inr ents"
    and "spatial_search ents = Some sp" and "map_of sp ''type'' = Some ty"
    and "ty \<noteq> SStr ''ConeSearch''"
  shows "build_search_filter e ents = Inr None \<and>
         data_query e q =
           data_query (e\<lparr>parse_adql_entities := \<lambda>text. Inr (ents\<lparr>spatial_search := None\<rparr>)\<rparr>) q"
proof -
  have 1: "build_search_filter e ents = Inr None"
    using assms(2-4) by (rule build_search_filter_other)
  have 2: "build_search_filter (e\<lparr>parse_adql_entities := \<lambda>text. Inr (ents\<lparr>spatial_search := None\<rparr>)\<rparr>)
             (ents\<lparr>spatial_search := None\<rparr>) = Inr None"
    by (simp add: build_search_filter_none)
  show ?thesis
    using 1 2 assms(1) by (simp add: data_query_parsed split: list.splits sum.splits)
qed

theorem other_spatial_variants_dropped_witness:
  "parse_adql_entities (example_env (descriptor ''gaia_dr3.gaia'' (Some polygon_280))) q_gaia =
     Inr (descriptor ''gaia_dr3.gaia'' (Some polygon_280)) \<and>
   spatial_search (descriptor ''gaia_dr3.gaia'' (Some polygon_280)) = Some polygon_280 \<and>
   map_of polygon_280 ''type'' = Some (SStr ''PolygonSearch'') \<and>
   SStr ''PolygonSearch'' \<noteq> (SStr ''ConeSearch'' :: int sval) \<and>
   build_search_filter (example_env (descriptor ''gaia_dr3.gaia'' (Some polygon_280)))
     (descriptor ''gaia_dr3.gaia'' (Some polygon_280)) = Inr None \<and>
   data_query (example_env (descriptor ''gaia_dr3.gaia'' (Some polygon_280))) q_gaia =
     Inr ([[''ra'' \<mapsto> PyObj 270, ''dec'' \<mapsto> PyNone]], [''ra'', ''dec'', ''flux''],
          ''gaia_dr3.gaia'')"
  using other_spatial_variants_dropped
    [where e = "example_env (descriptor ''gaia_dr3.gaia'' (Some polygon_280))"
       and q = q_gaia and ents = "descriptor ''gaia_dr3.gaia'' (Some polygon_280)"
       and sp = polygon_280 and ty = "SStr ''PolygonSearch''"]
  by (simp add: example_env_def descriptor_def polygon_280_def data_query_def
      make_catalog_url_gaia build_search_filter_def extract_q_gaia)

text \<open>
  C10. When the descriptor's \<open>spatial_search\<close> is a \<open>ConeSearch\<close> with the entries \<open>ra\<close>,
  \<open>dec\<close> and a numeric \<open>radius\<close>, the cone predicate is constructed from \<open>ra\<close> and \<open>dec\<close>
  unchanged and from the radius multiplied by 3600, and that predicate is the spatial
  filter with which the catalog is opened.
\<close>

theorem cone_search_predicate:
  assumes "parse_adql_entities e q = Inr ents"
    and "spatial_search ents = Some sp"
    and "map_of sp ''type'' = Some (SStr ''ConeSearch'')"
    and "map_of sp ''ra'' = Some ra" and "map_of sp ''dec'' = Some dec"
    and "map_of sp ''radius'' = Some (SNum radius)"
    and "ConeSearch e ra dec (SNum (num_mul e radius 3600)) = Inr cone"
    and "tables ents = table # others" and "make_catalog_url table = Inr url"
  shows "build_search_filter e ents = Inr (Some cone) \<and>
         data_query e q =
           (case open_catalog_head e
                   \<lparr>catalog_url = url, req_columns = columns ents,
                    search_filter = Some cone, filters = conditions ents,
                    head_rows = limits ents\<rparr> of
              Inl err \<Rightarrow> Inl err
            | Inr (data, result_columns) \<Rightarrow> Inr (data, result_columns, extract_table_name q))"
proof -
  have "sp \<noteq> []" using assms(3) by auto
  then have 1: "build_search_filter e ents = Inr (Some cone)"
    using assms(2-7) by (simp add: build_search_filter_def spatial_get_def)
  show ?thesis
    using 1 assms(1,8,9) by (simp add: data_query_parsed)
qed

theorem cone_search_predicate_witness:
  "parse_adql_entities (example_env (descriptor ''gaia_dr3.gaia'' (Some cone_270_23))) q_gaia =
     Inr (descriptor ''gaia_dr3.gaia'' (Some cone_270_23)) \<and>
   spatial_search (descriptor ''gaia_dr3.gaia'' (Some cone_270_23)) = Some cone_270_23 \<and>
   map_of cone_270_23 ''type'' = Some (SStr ''ConeSearch'') \<and>
   map_of cone_270_23 ''ra'' = Some (SNum 270) \<and>
   map_of cone_270_23 ''dec'' = Some (SNum 23) \<and>
   map_of cone_270_23 ''radius'' = Some (SNum 2) \<and>
   ConeSearch (example_env (descriptor ''gaia_dr3.gaia'' (Some cone_270_23)))
     (SNum 270) (SNum 23) (SNum 7200) = Inr (SNum 270, SNum 23, SNum 7200) \<and>
   build_search_filter (example_env (descriptor ''gaia_dr3.gaia'' (Some cone_270_23)))
     (descriptor ''gaia_dr3.gaia'' (Some cone_270_23)) =
     Inr (Some (SNum 270, SNum 23, SNum 7200))"
  using cone_search_predicate
    [where e = "example_env (descriptor ''gaia_dr3.gaia'' (Some cone_270_23))"
       and q = q_gaia and ents = "descriptor ''gaia_dr3.gaia'' (Some cone_270_23)"
       and sp = cone_270_23 and ra = "SNum 270" and dec = "SNum 23" and radius = 2
       and cone = "(SNum 270, SNum 23, SNum 7200)" and table = "''gaia_dr3.gaia''"
       and others = "[]" and url = "''/var/www/data.lsdb.io/html/hats/gaia_dr3/gaia/''"]
  by (simp add: example_env_def descriptor_def cone_270_23_def make_catalog_url_gaia)

section \<open>Properties: the prefix fallback of the metadata lookup\<close>






section \<open>Properties: the table name of the metadata lookup\<close>

lemma ident_start_char: "is_ident_start c \<Longrightarrow> is_ident_char c"
  by (auto simp: is_ident_start_def is_ident_char_def)

lemma ident_char_word: "is_ident_char c \<Longrightarrow> is_word c"
  by (simp add: is_word_def)

lemma space_not_ident_start: "is_space c \<Longrightarrow> \<not> is_ident_start c"
  by (auto simp: is_space_def is_ident_start_def space_chars_def ascii_lower_def
      ascii_upper_def)

lemma dot_not_word: "\<not> is_word CHR ''.''"
  by (simp add: chr_defs)

lemma dot_not_ident_char: "\<not> is_ident_char CHR ''.''"
  using dot_not_word ident_char_word by blast

lemma lower_from_length: "lower kw = ''from'' \<Longrightarrow> length kw = 4"
  by (metis length_map lower_def length_Cons list.size(3) numeral_Bit0 Suc_eq_plus1 One_nat_def add_Suc_right numeral_2_eq_2 add.right_neutral)


subsection \<open>The longest identifier\<close>

lemma match_ident_iff:
  "match_ident s = Some (t, r) \<longleftrightarrow>
     s = t @ r \<and> is_identifier t \<and> (r = [] \<or> \<not> is_ident_char (hd r))"
proof
  assume "match_ident s = Some (t, r)"
  then obtain c cs where s: "s = c # cs" and c: "is_ident_start c"
    and t: "t = c # takeWhile is_ident_char cs" and r: "r = dropWhile is_ident_char cs"
    by (auto simp: match_ident_def split: list.splits if_splits)
  have "r = [] \<or> \<not> is_ident_char (hd r)"
    unfolding r by (metis hd_dropWhile)
  moreover have "is_identifier t"
    unfolding t using c by (simp add: is_identifier_def list_all_iff) (meson set_takeWhileD)
  ultimately show "s = t @ r \<and> is_identifier t \<and> (r = [] \<or> \<not> is_ident_char (hd r))"
    using s t r by simp
next
  assume a: "s = t @ r \<and> is_identifier t \<and> (r = [] \<or> \<not> is_ident_char (hd r))"
  then obtain c ts where t: "t = c # ts" and c: "is_ident_start c"
    and ts: "\<forall>x \<in> set ts. is_ident_char x"
    by (auto simp: is_identifier_def list_all_iff split: list.splits)
  have r: "takeWhile is_ident_char r = []" "dropWhile is_ident_char r = r"
    using a by (cases r; simp)+
  have "takeWhile is_ident_char (ts @ r) = ts" "dropWhile is_ident_char (ts @ r) = r"
    using ts r by (simp_all add: takeWhile_append2 dropWhile_append2)
  then show "match_ident s = Some (t, r)"
    using a t c by (simp add: match_ident_def)
qed

lemma at_word_end_ident: "at_word_end r \<Longrightarrow> r = [] \<or> \<not> is_ident_char (hd r)"
  by (cases r) (auto simp: at_word_end_def ident_char_word)

lemma at_word_end_dot: "at_word_end (CHR ''.'' # r)"
  by (simp add: at_word_end_def dot_not_word)

subsection \<open>The table reference after the whitespace\<close>

lemma table_candidate_cases:
  assumes "table_candidate s cand"
  shows "(\<exists>r1. match_ident s = Some (cand, r1) \<and> at_word_end r1) \<or>
         (\<exists>t1 t2 r2 r3. cand = t1 @ ''.'' @ t2 \<and>
            match_ident s = Some (t1, CHR ''.'' # r2) \<and> match_ident r2 = Some (t2, r3) \<and>
            at_word_end r3)"
proof -
  from assms obtain rest where s: "s = cand @ rest" and tr: "table_ref cand"
    and we: "at_word_end rest"
    by (auto simp: table_candidate_def)
  from tr consider "is_identifier cand"
    | a b where "cand = a @ ''.'' @ b" "is_identifier a" "is_identifier b"
    by (auto simp: table_ref_def)
  then show ?thesis
  proof cases
    case 1
    then have "match_ident s = Some (cand, rest)"
      using s we at_word_end_ident by (simp add: match_ident_iff)
    then show ?thesis using we by blast
  next
    case 2
    have "match_ident s = Some (a, CHR ''.'' # b @ rest)"
      using s 2 dot_not_ident_char by (simp add: match_ident_iff)
    moreover have "match_ident (b @ rest) = Some (b, rest)"
      using 2 we at_word_end_ident by (simp add: match_ident_iff)
    ultimately show ?thesis using 2(1) we by blast
  qed
qed

lemma match_table_sound:
  assumes "match_table s = Some cand"
  shows "table_candidate s cand"
proof -
  from assms obtain t1 r1 where m1: "match_ident s = Some (t1, r1)"
    by (auto simp: match_table_def split: option.splits)
  then have s: "s = t1 @ r1" and i1: "is_identifier t1"
    by (simp_all add: match_ident_iff)
  show ?thesis
  proof (cases r1)
    case Nil
    then have "cand = t1" using assms m1 by (simp add: match_table_def)
    then show ?thesis
      using s i1 Nil by (auto simp: table_candidate_def table_ref_def at_word_end_def)
  next
    case (Cons c r2)
    show ?thesis
    proof (cases "c = CHR ''.''")
      case False
      then have "cand = t1" "\<not> is_word c"
        using assms m1 Cons by (auto simp: match_table_def split: if_splits)
      then show ?thesis
        using s i1 Cons by (auto simp: table_candidate_def table_ref_def at_word_end_def)
    next
      case True
      have bare: "table_candidate s t1"
        using s i1 Cons True at_word_end_dot
        by (auto simp: table_candidate_def table_ref_def)
      show ?thesis
      proof (cases "match_ident r2")
        case None
        then have "cand = t1"
          using assms m1 Cons True by (simp add: match_table_def)
        then show ?thesis using bare by simp
      next
        case (Some p)
        obtain t2 r3 where p: "p = (t2, r3)" by (cases p)
        then have m2: "r2 = t2 @ r3" "is_identifier t2"
          using Some by (simp_all add: match_ident_iff)
        show ?thesis
        proof (cases "at_word_end r3")
          case False
          then have "cand = t1"
            using assms m1 Cons True Some p by (simp add: match_table_def)
          then show ?thesis using bare by simp
        next
          case we: True
          then have "cand = t1 @ ''.'' @ t2"
            using assms m1 Cons True Some p by (simp add: match_table_def)
          moreover have "s = (t1 @ ''.'' @ t2) @ r3"
            using s Cons True m2 by simp
          ultimately show ?thesis
            using i1 m2 we unfolding table_candidate_def table_ref_def by blast
        qed
      qed
    qed
  qed
qed

lemma match_table_longest:
  assumes "table_candidate s cand'"
  shows "\<exists>cand. match_table s = Some cand \<and> length cand' \<le> length cand"
  using table_candidate_cases [OF assms]
proof (elim disjE exE conjE)
  fix r1
  assume "match_ident s = Some (cand', r1)" "at_word_end r1"
  then show ?thesis
    by (cases r1)
      (auto simp: match_table_def at_word_end_def split: option.splits)
next
  fix t1 t2 r2 r3
  assume "cand' = t1 @ ''.'' @ t2" "match_ident s = Some (t1, CHR ''.'' # r2)"
    "match_ident r2 = Some (t2, r3)" "at_word_end r3"
  then show ?thesis
    by (simp add: match_table_def)
qed


subsection \<open>The pattern at one position\<close>

lemma is_identifier_start:
  "is_identifier a \<Longrightarrow> \<exists>c cs. a = c # cs \<and> is_ident_start c"
  by (cases a) (auto simp: is_identifier_def)

lemma table_ref_start: "table_ref cand \<Longrightarrow> \<exists>c cs. cand = c # cs \<and> is_ident_start c"
  unfolding table_ref_def by (auto dest!: is_identifier_start)

lemma dropWhile_space_table:
  assumes "list_all is_space ws" and "table_ref cand"
  shows "dropWhile is_space (ws @ cand @ rest) = cand @ rest"
proof -
  obtain c cs where "cand = c # cs" "is_ident_start c"
    using table_ref_start [OF assms(2)] by blast
  then have "dropWhile is_space (cand @ rest) = cand @ rest"
    using space_not_ident_start by auto
  then show ?thesis
    using assms(1) by (simp add: dropWhile_append2 list_all_iff)
qed

lemma from_candidate_iff:
  "from_candidate s cand \<longleftrightarrow>
     lower (take 4 s) = ''from'' \<and>
     (\<exists>c cs. drop 4 s = c # cs \<and> is_space c \<and> table_candidate (dropWhile is_space cs) cand)"
proof
  assume "from_candidate s cand"
  then obtain kw ws rest where s: "s = kw @ ws @ cand @ rest" and kw: "lower kw = ''from''"
    and ws: "ws \<noteq> []" "list_all is_space ws" and tr: "table_ref cand"
    and we: "at_word_end rest"
    by (auto simp: from_candidate_def)
  have len: "length kw = 4" using kw by (rule lower_from_length)
  obtain c ws' where ws': "ws = c # ws'" using ws(1) by (cases ws) auto
  have "take 4 s = kw" "drop 4 s = c # (ws' @ cand @ rest)"
    using s len ws' by simp_all
  moreover have "dropWhile is_space (ws' @ cand @ rest) = cand @ rest"
    using ws(2) ws' tr by (simp add: dropWhile_space_table)
  moreover have "table_candidate (cand @ rest) cand"
    using tr we by (auto simp: table_candidate_def)
  ultimately show "lower (take 4 s) = ''from'' \<and>
     (\<exists>c cs. drop 4 s = c # cs \<and> is_space c \<and> table_candidate (dropWhile is_space cs) cand)"
    using kw ws(2) ws' by simp
next
  assume a: "lower (take 4 s) = ''from'' \<and>
     (\<exists>c cs. drop 4 s = c # cs \<and> is_space c \<and> table_candidate (dropWhile is_space cs) cand)"
  then obtain c cs rest where d: "drop 4 s = c # cs" and c: "is_space c"
    and r: "dropWhile is_space cs = cand @ rest" and tr: "table_ref cand"
    and we: "at_word_end rest"
    by (auto simp: table_candidate_def)
  have "s = take 4 s @ (c # takeWhile is_space cs) @ cand @ rest"
    using d r by (metis append_Cons append_take_drop_id takeWhile_dropWhile_id)
  moreover have "list_all is_space (c # takeWhile is_space cs)"
    using c by (simp add: list_all_iff) (meson set_takeWhileD)
  ultimately show "from_candidate s cand"
    using a tr we unfolding from_candidate_def by blast
qed

lemma match_from_sound: "match_from s = Some cand \<Longrightarrow> from_candidate s cand"
  by (auto simp: match_from_def from_candidate_iff match_table_sound
      split: if_splits list.splits)

lemma match_from_longest:
  assumes "from_candidate s cand'"
  shows "\<exists>cand. match_from s = Some cand \<and> length cand' \<le> length cand"
proof -
  from assms obtain c cs where "lower (take 4 s) = ''from''" "drop 4 s = c # cs" "is_space c"
    "table_candidate (dropWhile is_space cs) cand'"
    by (auto simp: from_candidate_iff)
  then show ?thesis
    using match_table_longest [of "dropWhile is_space cs" cand']
    by (simp add: match_from_def)
qed

subsection \<open>The search\<close>

lemma from_pattern_match_in: "from_pattern_match q pre cand \<longleftrightarrow> from_match_in False q pre cand"
  by (auto simp: from_pattern_match_def from_match_in_def from_candidate_def)

lemma from_candidate_Nil: "\<not> from_candidate [] cand"
  by (simp add: from_candidate_iff lower_def)

lemma from_match_in_Nil: "\<not> from_match_in pw [] p cand"
  by (simp add: from_match_in_def from_candidate_Nil)

lemma from_match_in_Cons:
  "from_match_in pw (c # cs) p cand \<longleftrightarrow>
     (p = [] \<and> \<not> pw \<and> from_candidate (c # cs) cand) \<or>
     (\<exists>p'. p = c # p' \<and> from_match_in (is_word c) cs p' cand)"
  by (cases p) (auto simp: from_match_in_def)

lemma search_from_None:
  "search_from pw s = None \<Longrightarrow> \<not> from_match_in pw s p cand"
proof (induction s arbitrary: pw p)
  case Nil
  then show ?case by (simp add: from_match_in_Nil)
next
  case (Cons c cs)
  from Cons.prems have rec: "search_from (is_word c) cs = None"
    and here: "pw \<or> match_from (c # cs) = None"
    by (auto split: option.splits if_splits)
  have "\<not> (\<not> pw \<and> from_candidate (c # cs) cand)"
    using here match_from_longest [of "c # cs" cand] by auto
  then show ?case
    using Cons.IH [OF rec] by (auto simp: from_match_in_Cons)
qed

lemma search_from_Some:
  "search_from pw s = Some cand \<Longrightarrow>
   \<exists>p. from_match_in pw s p cand \<and>
       (\<forall>p' cand'. from_match_in pw s p' cand' \<longrightarrow>
          length p \<le> length p' \<and> (length p' = length p \<longrightarrow> length cand' \<le> length cand))"
proof (induction s arbitrary: pw)
  case Nil
  then show ?case by simp
next
  case (Cons c cs)
  show ?case
  proof (cases "\<not> pw \<and> match_from (c # cs) \<noteq> None")
    case True
    then have m: "match_from (c # cs) = Some cand" and pw: "\<not> pw"
      using Cons.prems by auto
    have "from_match_in pw (c # cs) [] cand"
      using m pw by (simp add: from_match_in_Cons match_from_sound)
    moreover have "length cand' \<le> length cand" if "from_match_in pw (c # cs) [] cand'" for cand'
      using that m match_from_longest [of "c # cs" cand'] by (auto simp: from_match_in_Cons)
    ultimately show ?thesis
      by (intro exI [of _ "[]"]) auto
  next
    case False
    then have rec: "search_from (is_word c) cs = Some cand"
      using Cons.prems by (auto split: option.splits if_splits)
    from Cons.IH [OF rec] obtain p where p: "from_match_in (is_word c) cs p cand"
      and best: "\<And>p' cand'. from_match_in (is_word c) cs p' cand' \<Longrightarrow>
          length p \<le> length p' \<and> (length p' = length p \<longrightarrow> length cand' \<le> length cand)"
      by blast
    have none: "\<not> (\<not> pw \<and> from_candidate (c # cs) cand')" for cand'
      using False match_from_longest [of "c # cs" cand'] by auto
    have "from_match_in pw (c # cs) (c # p) cand"
      using p by (simp add: from_match_in_Cons)
    moreover have "length (c # p) \<le> length p' \<and>
        (length p' = length (c # p) \<longrightarrow> length cand' \<le> length cand)"
      if "from_match_in pw (c # cs) p' cand'" for p' cand'
      using that none best by (auto simp: from_match_in_Cons)
    ultimately show ?thesis by blast
  qed
qed

lemma search_from_leftmost:
  "search_from False q = Some cand \<Longrightarrow> \<exists>pre. leftmost_match q pre cand"
  using search_from_Some [of False q cand]
  by (simp add: leftmost_match_def from_pattern_match_in)

lemma search_from_no_match:
  "search_from False q = None \<Longrightarrow> \<not> from_pattern_match q pre cand"
  by (simp add: from_pattern_match_in search_from_None)


subsection \<open>The table part\<close>

lemma str_split_nonempty: "str_split sep s \<noteq> []"
  by (induction s) (auto split: list.splits)

lemma str_split_single: "sep \<notin> set s \<Longrightarrow> str_split sep s = [s]"
  by (induction s) auto

lemma str_split_more: "sep \<in> set s \<Longrightarrow> \<exists>p q ps. str_split sep s = p # q # ps"
proof (induction s)
  case Nil
  then show ?case by simp
next
  case (Cons c cs)
  show ?case
  proof (cases "c = sep")
    case True
    then show ?thesis
      using str_split_nonempty [of sep cs] by (cases "str_split sep cs") auto
  next
    case False
    then have "sep \<in> set cs" using Cons.prems by simp
    from Cons.IH [OF this] show ?thesis using False by auto
  qed
qed

lemma last_str_split:
  "last (str_split sep s) = rev (takeWhile (\<lambda>c. c \<noteq> sep) (rev s))"
proof (induction s)
  case Nil
  then show ?case by simp
next
  case (Cons c cs)
  show ?case
  proof (cases "sep \<in> set cs")
    case True
    then obtain p q ps where sp: "str_split sep cs = p # q # ps"
      using str_split_more by blast
    have "takeWhile (\<lambda>c. c \<noteq> sep) (rev cs @ [c]) = takeWhile (\<lambda>c. c \<noteq> sep) (rev cs)"
      using True by (simp add: takeWhile_append1)
    then show ?thesis
      using Cons.IH sp by (auto simp: takeWhile_append1)
  next
    case False
    then have "takeWhile (\<lambda>c. c \<noteq> sep) (rev cs @ [c]) =
               rev cs @ takeWhile (\<lambda>c. c \<noteq> sep) [c]"
      by (intro takeWhile_append2) auto
    then show ?thesis
      using False by (auto simp: str_split_single takeWhile_append2)
  qed
qed

text \<open>
  C1, as stated, fails in its first alternative: the descriptor's first table name is
  never consulted. Here the descriptor names the schema-qualified table \<open>gaia_dr3.gaia\<close>,
  the query text names it with delimited identifiers, which the scan of the text does
  not match, and the metadata lookup uses the sentinel \<open>results\<close>.
\<close>

theorem descriptor_table_not_consulted:
  "tables (descriptor ''gaia_dr3.gaia'' None) = [''gaia_dr3.gaia''] \<and>
   data_query (example_env (descriptor ''gaia_dr3.gaia'' None)) q_delimited =
     Inr ([[''ra'' \<mapsto> PyObj 270, ''dec'' \<mapsto> PyNone]], [''ra'', ''dec'', ''flux''], ''results'')"
  by (simp add: example_env_def descriptor_def data_query_def make_catalog_url_gaia
      build_search_filter_def extract_q_delimited)

text \<open>
  C1, amended. For every data query that reaches the metadata lookup, the table name of
  the lookup is computed from the raw query text alone: when the FROM pattern matches
  nowhere in the text it is the sentinel \<open>results\<close>; otherwise it is the table reference
  of the leftmost match (the longest one there) unless the part of that reference after
  its last dot, in upper case, is a reserved SQL keyword, in which case it is again
  \<open>results\<close>.
\<close>

theorem metadata_table_name:
  assumes "data_query e q = Inr (data, cols, t)"
  shows "t = extract_table_name q \<and>
         ((\<forall>pre cand. \<not> from_pattern_match q pre cand) \<and> t = ''results'' \<or>
          (\<exists>pre cand. leftmost_match q pre cand \<and>
             t = (if upper_ident (rev (takeWhile (\<lambda>c. c \<noteq> CHR ''.'') (rev cand)))
                       \<in> set sql_keywords
                  then ''results'' else cand)))"
proof -
  have t: "t = extract_table_name q"
    using assms by (auto simp: data_query_def split: sum.splits list.splits)
  show ?thesis
  proof (cases "search_from False q")
    case None
    then show ?thesis
      using t search_from_no_match by (simp add: extract_table_name_def)
  next
    case (Some cand)
    then obtain pre where "leftmost_match q pre cand"
      using search_from_leftmost by blast
    moreover have "t = (if upper_ident (rev (takeWhile (\<lambda>c. c \<noteq> CHR ''.'') (rev cand)))
                          \<in> set sql_keywords
                     then ''results'' else cand)"
      using t Some by (simp add: extract_table_name_def last_str_split)
    ultimately show ?thesis using t by blast
  qed
qed

theorem metadata_table_name_witness:
  "data_query (example_env (descriptor ''gaia_dr3.gaia'' None)) q_gaia =
     Inr ([[''ra'' \<mapsto> PyObj 270, ''dec'' \<mapsto> PyNone]], [''ra'', ''dec'', ''flux''],
          ''gaia_dr3.gaia'') \<and>
   extract_table_name q_gaia = ''gaia_dr3.gaia'' \<and>
   (\<exists>pre. leftmost_match q_gaia pre ''gaia_dr3.gaia'')"
proof -
  have d: "data_query (example_env (descriptor ''gaia_dr3.gaia'' None)) q_gaia =
     Inr ([[''ra'' \<mapsto> PyObj 270, ''dec'' \<mapsto> PyNone]], [''ra'', ''dec'', ''flux''],
          ''gaia_dr3.gaia'')"
    by (simp add: example_env_def descriptor_def data_query_def make_catalog_url_gaia
        build_search_filter_def extract_q_gaia)
  show ?thesis
    using metadata_table_name [OF d] d by (auto split: if_splits)
qed

section \<open>Properties: the tables discovery document\<close>

lemma fixture_schemas:
  "fixture_query schemas_sql [] =
     Inr [[''schema_name'' \<mapsto> Some ''gaia_dr3'', ''description'' \<mapsto> Some ''Gaia DR3 schema'']]"
  by (simp add: fixture_query_def)

lemma fixture_tables:
  "fixture_query tables_sql [Some ''gaia_dr3''] =
     Inr [[''table_name'' \<mapsto> Some ''gaia'', ''description'' \<mapsto> Some ''Gaia sources''],
          [''table_name'' \<mapsto> Some ''parents'', ''description'' \<mapsto> Some ''Parent table'']]"
  by (simp add: fixture_query_def schemas_sql_def tables_sql_def)

lemma fixture_gaia_columns:
  "fixture_query table_columns_sql [Some ''gaia_dr3.gaia''] = Inr gaia_columns"
  by (simp add: fixture_query_def schemas_sql_def tables_sql_def table_columns_sql_def)

lemma fixture_parents_columns:
  "fixture_query table_columns_sql [Some ''gaia_dr3.parents''] =
     Inr [column_row ''id'' (Some ''long'') None None None]"
  by (simp add: fixture_query_def schemas_sql_def tables_sql_def table_columns_sql_def)

text \<open>
  C5, at the store of the tables tests. The store holds the foreign key \<open>fk_parent\<close> from
  \<open>gaia_dr3.gaia\<close> to \<open>gaia_dr3.parents\<close>; the element tree of the tables document, and the
  document that the \<open>/tables\<close> route writes, list the schema, its two tables and their
  columns, and no foreign key. The route takes no table name, so the document cannot be
  scoped to one table.
\<close>

theorem tables_document_of_fixture:
  "tables_element (example_env (descriptor ''gaia_dr3.gaia'' None)) =
     Inr (tableset
            [Element ''schema'' [] None
               [text_elem ''name'' (Some ''gaia_dr3''),
                text_elem ''description'' (Some ''Gaia DR3 schema''),
                Element ''table'' [] None
                  [text_elem ''name'' (Some ''gaia''),
                   text_elem ''description'' (Some ''Gaia sources''),
                   Element ''column'' [] None
                     [text_elem ''name'' (Some ''dec''), text_elem ''dataType'' (Some ''double''),
                      text_elem ''unit'' (Some ''deg''), text_elem ''ucd'' (Some ''pos.eq.dec'')],
                   Element ''column'' [] None
                     [text_elem ''name'' (Some ''parent_id''), text_elem ''dataType'' (Some ''long'')],
                   Element ''column'' [] None
                     [text_elem ''name'' (Some ''ra''), text_elem ''dataType'' (Some ''double''),
                      text_elem ''unit'' (Some ''deg''), text_elem ''ucd'' (Some ''pos.eq.ra'')],
                   Element ''column'' [] None
                     [text_elem ''name'' (Some ''source_id''), text_elem ''dataType'' (Some ''long''),
                      text_elem ''description'' (Some ''Source identifier'')]],
                Element ''table'' [] None
                  [text_elem ''name'' (Some ''parents''),
                   text_elem ''description'' (Some ''Parent table''),
                   Element ''column'' [] None
                     [text_elem ''name'' (Some ''id''), text_elem ''dataType'' (Some ''long'')]]]]) \<and>
   body (tables_endpoint (example_env (descriptor ''gaia_dr3.gaia'' None))) =
     write_document (example_env (descriptor ''gaia_dr3.gaia'' None))
       (tableset
         [Element ''schema'' [] None
            [text_elem ''name'' (Some ''gaia_dr3''),
             text_elem ''description'' (Some ''Gaia DR3 schema''),
             Element ''table'' [] None
               [text_elem ''name'' (Some ''gaia''),
                text_elem ''description'' (Some ''Gaia sources''),
                Element ''column'' [] None
                  [text_elem ''name'' (Some ''dec''), text_elem ''dataType'' (Some ''double''),
                   text_elem ''unit'' (Some ''deg''), text_elem ''ucd'' (Some ''pos.eq.dec'')],
                Element ''column'' [] None
                  [text_elem ''name'' (Some ''parent_id''), text_elem ''dataType'' (Some ''long'')],
                Element ''column'' [] None
                  [text_elem ''name'' (Some ''ra''), text_elem ''dataType'' (Some ''double''),
                   text_elem ''unit'' (Some ''deg''), text_elem ''ucd'' (Some ''pos.eq.ra'')],
                Element ''column'' [] None
                  [text_elem ''name'' (Some ''source_id''), text_elem ''dataType'' (Some ''long''),
                   text_elem ''description'' (Some ''Source identifier'')]],
             Element ''table'' [] None
               [text_elem ''name'' (Some ''parents''),
                text_elem ''description'' (Some ''Parent table''),
                Element ''column'' [] None
                  [text_elem ''name'' (Some ''id''), text_elem ''dataType'' (Some ''long'')]]]])"
proof -
  let ?doc = "tableset
                 [Element ''schema'' [] None
                    [text_elem ''name'' (Some ''gaia_dr3''),
                     text_elem ''description'' (Some ''Gaia DR3 schema''),
                     Element ''table'' [] None
                       [text_elem ''name'' (Some ''gaia''),
                        text_elem ''description'' (Some ''Gaia sources''),
                        Element ''column'' [] None
                          [text_elem ''name'' (Some ''dec''), text_elem ''dataType'' (Some ''double''),
                           text_elem ''unit'' (Some ''deg''), text_elem ''ucd'' (Some ''pos.eq.dec'')],
                        Element ''column'' [] None
                          [text_elem ''name'' (Some ''parent_id''), text_elem ''dataType'' (Some ''long'')],
                        Element ''column'' [] None
                          [text_elem ''name'' (Some ''ra''), text_elem ''dataType'' (Some ''double''),
                           text_elem ''unit'' (Some ''deg''), text_elem ''ucd'' (Some ''pos.eq.ra'')],
                        Element ''column'' [] None
                          [text_elem ''name'' (Some ''source_id''), text_elem ''dataType'' (Some ''long''),
                           text_elem ''description'' (Some ''Source identifier'')]],
                     Element ''table'' [] None
                       [text_elem ''name'' (Some ''parents''),
                        text_elem ''description'' (Some ''Parent table''),
                        Element ''column'' [] None
                          [text_elem ''name'' (Some ''id''), text_elem ''dataType'' (Some ''long'')]]]]"
  have el: "tables_element (example_env (descriptor ''gaia_dr3.gaia'' None)) = Inr ?doc"
    by (simp add: tables_element_def example_env_def
        fixture_schemas fixture_tables fixture_gaia_columns fixture_parents_columns
        schema_elem_def table_elem_def column_elem_def row_item_def optional_elem_def
        fmt_def gaia_columns_def column_row_def)
  have "serializable ?doc"
    by code_simp
  moreover have "parsed ?doc = ?doc"
    by code_simp
  ultimately have
    "format_xml_with_indentation (example_env (descriptor ''gaia_dr3.gaia'' None)) ?doc =
       Inr (write_document (example_env (descriptor ''gaia_dr3.gaia'' None)) ?doc)"
    by (simp only: format_Inr simp_thms)
  with el show ?thesis
    by (simp add: tables_endpoint_def Response_def generate_tables_xml_def)
qed

end
